theory Spec2Isabelle
  imports Complex_Main "HOL-Library.Multiset"
begin

section \<open>GPS processing library (lib/gps-processing.ts, src/unnamed/part\_009)\<close>

text \<open>
  Conventions of the embedding.
  \<^item> A JavaScript \<open>number\<close> is a \<open>real\<close>: arithmetic is exact, the rounding of IEEE
    doubles and the values NaN and Infinity are not modelled, except where a division by
    zero is written out.
  \<^item> A valid \<open>Date\<close> is the \<open>int\<close> that \<open>getTime()\<close> returns: milliseconds since the
    epoch.
  \<^item> \<open>Array.prototype.sort\<close> with a comparator \<open>(a, b) => key(a) - key(b)\<close> is a stable
    sort on that key: \<open>sort_key\<close>.
  \<^item> The libraries h3-js and @turf/turf are not part of the repository; the three functions
    the code calls are fields of a \<open>Geo\<close> record handed to the model.
\<close>

subsection \<open>Data\<close>

record GPSFix =
  ts :: int
  lat :: real
  lon :: real
  speed :: "real option"
  accuracy :: "real option"
  heading :: "real option"

datatype DropReason = weak_signal | long_gap | micro_drop

record Drop =
  startTs :: int
  endTs :: int
  startLat :: real
  startLon :: real
  endLat :: real
  endLon :: real
  durationSec :: real
  reason :: DropReason

subsection \<open>detectDrops\<close>

text \<open>The first loop of \<open>detectDrops\<close>: the gaps strictly between 0 and 300 seconds.\<close>

fun modalGaps :: "GPSFix list \<Rightarrow> real list" where
  "modalGaps (prv # cur # pts) =
     (let gap = real_of_int (ts cur - ts prv) / 1000
      in (if gap > 0 \<and> gap < 300 then [gap] else []) @ modalGaps (cur # pts))"
| "modalGaps _ = []"

definition modalInterval :: "real list \<Rightarrow> real" where
  "modalInterval gaps =
     (if length gaps > 0 then sort gaps ! (length gaps div 2) else 30)"

text \<open>The ternary that names the reason of a gap already known to exceed \<open>tauShort\<close>.\<close>

definition classifyGap :: "real \<Rightarrow> real \<Rightarrow> DropReason" where
  "classifyGap tauShort gapSec =
     (if gapSec > 600 then long_gap
      else if gapSec \<le> tauShort * 1.2 then micro_drop
      else weak_signal)"

text \<open>The second loop: one \<open>Drop\<close> per consecutive pair whose gap exceeds \<open>tauShort\<close>.\<close>

fun dropLoop :: "real \<Rightarrow> GPSFix list \<Rightarrow> Drop list" where
  "dropLoop tauShort (prv # cur # pts) =
     (let gapSec = real_of_int (ts cur - ts prv) / 1000
      in (if gapSec > tauShort
          then [\<lparr> startTs = ts prv, endTs = ts cur,
                  startLat = lat prv, startLon = lon prv,
                  endLat = lat cur, endLon = lon cur,
                  durationSec = gapSec,
                  reason = classifyGap tauShort gapSec \<rparr>]
          else [])
         @ dropLoop tauShort (cur # pts))"
| "dropLoop tauShort _ = []"

text \<open>
  \<open>dropThreshold\<close> is computed and never read, as in the source: the loop compares with
  \<open>tauShort\<close>.
\<close>

definition detectDrops :: "GPSFix list \<Rightarrow> real \<Rightarrow> Drop list" where
  "detectDrops points tauShort =
     (if length points < 2 then []
      else
        let sorted = sort_key ts points;
            gaps = modalGaps sorted;
            dropThreshold = max tauShort (modalInterval gaps * 2)
        in dropLoop tauShort sorted)"

text \<open>
  The older copy of the library kept in src/unnamed/part\_008 classifies with other
  constants (micro up to \<open>tauShort * 1.5\<close>, long above 300 seconds, micro tested first).
\<close>

definition classifyGap_legacy :: "real \<Rightarrow> real \<Rightarrow> DropReason" where
  "classifyGap_legacy tauShort gapSec =
     (if gapSec \<le> tauShort * 1.5 then micro_drop
      else if gapSec > 300 then long_gap
      else weak_signal)"

subsection \<open>extractCorridors\<close>

text \<open>
  The external geometry: \<open>latLngToCell lat lon res\<close> of h3-js, and \<open>distance\<close> (in
  kilometres) and \<open>bearing\<close> (in degrees) of @turf/turf on points given as
  \<open>(lon, lat)\<close>, the order in which the code builds them.
\<close>

record Geo =
  latLngToCell :: "real \<Rightarrow> real \<Rightarrow> int \<Rightarrow> string"
  distance :: "real \<times> real \<Rightarrow> real \<times> real \<Rightarrow> real"
  bearing :: "real \<times> real \<Rightarrow> real \<times> real \<Rightarrow> real"

record CorridorKey =
  aH3 :: string
  bH3 :: string
  direction :: int

record Traversal =
  corridorKey :: CorridorKey
  t_startTs :: int
  t_endTs :: int
  t_travelSec :: real
  t_avgSpeedKmh :: real
  t_startLat :: real
  t_startLon :: real
  t_endLat :: real
  t_endLon :: real

text \<open>JavaScript's \<open>%\<close>: the remainder has the sign of the dividend.\<close>

definition js_rem :: "real \<Rightarrow> real \<Rightarrow> real" where
  "js_rem x y = x - y * real_of_int (if x / y \<ge> 0 then \<lfloor>x / y\<rfloor> else \<lceil>x / y\<rceil>)"

definition js_rem_int :: "int \<Rightarrow> int \<Rightarrow> int" where
  "js_rem_int a n = (if a \<ge> 0 then a mod \<bar>n\<bar> else - ((- a) mod \<bar>n\<bar>))"

text \<open>
  The loop of \<open>extractCorridors\<close> in part\_009. Only \<open>long_gap\<close> drops are skipped
  before the quality filters; the counter \<open>sameCell\<close> of the source is declared and never
  incremented, and no branch compares \<open>aH3\<close> with \<open>bH3\<close>.
\<close>

fun extractCorridors :: "Geo \<Rightarrow> Drop list \<Rightarrow> int \<Rightarrow> Traversal list" where
  "extractCorridors g [] h3Resolution = []"
| "extractCorridors g (dr # drops) h3Resolution =
     (if reason dr = long_gap then extractCorridors g drops h3Resolution
      else
        let a = latLngToCell g (startLat dr) (startLon dr) h3Resolution;
            b = latLngToCell g (endLat dr) (endLon dr) h3Resolution;
            fromPt = (startLon dr, startLat dr);
            toPt = (endLon dr, endLat dr);
            bearingDeg = bearing g fromPt toPt;
            normalizedBearing = js_rem (bearingDeg + 360) 360;
            directionBucket = js_rem_int \<lfloor>normalizedBearing / 22.5\<rfloor> 16;
            distanceKm = distance g fromPt toPt;
            avgSpeed = (if durationSec dr > 0
                        then distanceKm / (durationSec dr / 3600) else 0)
        in if distanceKm < 0.01 then extractCorridors g drops h3Resolution
           else if avgSpeed > 200 then extractCorridors g drops h3Resolution
           else \<lparr> corridorKey = \<lparr> aH3 = a, bH3 = b, direction = directionBucket \<rparr>,
                   t_startTs = startTs dr, t_endTs = endTs dr,
                   t_travelSec = durationSec dr, t_avgSpeedKmh = avgSpeed,
                   t_startLat = startLat dr, t_startLon = startLon dr,
                   t_endLat = endLat dr, t_endLon = endLon dr \<rparr>
                # extractCorridors g drops h3Resolution)"

subsection \<open>Statistics\<close>

definition median :: "real list \<Rightarrow> real" where
  "median values =
     (if length values = 0 then 0
      else
        let sorted = sort values;
            mid = length sorted div 2
        in if length sorted mod 2 = 0
           then (sorted ! (mid - 1) + sorted ! mid) / 2
           else sorted ! mid)"

text \<open>
  The index is in range whenever \<open>0 \<le> p \<le> 100\<close> (lemma \<open>percentile_index\<close>); the only
  caller passes 95.
\<close>

definition percentile :: "real list \<Rightarrow> real \<Rightarrow> real" where
  "percentile values p =
     (if length values = 0 then 0
      else
        let sorted = sort values;
            index = \<lceil>(p / 100) * real (length sorted)\<rceil> - 1
        in sorted ! nat (max 0 index))"

text \<open>\<open>Date.getUTCHours()\<close> of a valid date.\<close>

definition getHourBucket :: "int \<Rightarrow> int" where
  "getHourBucket date = (date div 3600000) mod 24"

text \<open>\<open>Math.round\<close>: to the nearest integer, halves upwards.\<close>

definition js_round :: "real \<Rightarrow> real" where
  "js_round x = real_of_int \<lfloor>x + 1 / 2\<rfloor>"

datatype AlertType = delay | overspeed

datatype Severity = low | medium | high

text \<open>
  In JavaScript a division by zero gives Infinity for a non-zero dividend (which passes
  \<open>ratio >= 2\<close>) and NaN for \<open>0 / 0\<close> (which fails both comparisons).
\<close>

definition getAlertSeverity :: "AlertType \<Rightarrow> real \<Rightarrow> real \<Rightarrow> Severity" where
  "getAlertSeverity type deltaValue threshold =
     (if threshold = 0 then (if deltaValue = 0 then low else high)
      else
        let ratio = \<bar>deltaValue\<bar> / threshold
        in if ratio \<ge> 2 then high
           else if ratio \<ge> 1.5 then medium
           else low)"

section \<open>Baseline computation (lib/baseline-computation.ts, src/unnamed/part\_008)\<close>

record CorridorBaseline =
  corridorId :: string
  bucketHour :: int
  bcount :: nat
  medianTravelSec :: real
  p95SpeedKmh :: real

record TraversalData =
  travelSec :: real
  avgSpeedKmh :: real
  td_startTs :: int

text \<open>
  A JavaScript \<open>Map\<close> iterates in insertion order: an association list in which a new
  key goes to the end and a known key gets the value appended to its array.
\<close>

fun mapPush :: "'k \<Rightarrow> 'v \<Rightarrow> ('k \<times> 'v list) list \<Rightarrow> ('k \<times> 'v list) list" where
  "mapPush k v [] = [(k, [v])]"
| "mapPush k v ((k', vs) # m) =
     (if k' = k then (k', vs @ [v]) # m else (k', vs) # mapPush k v m)"

definition hourlyBuckets :: "TraversalData list \<Rightarrow> (int \<times> TraversalData list) list" where
  "hourlyBuckets traversals =
     foldl (\<lambda>m t. mapPush (getHourBucket (td_startTs t)) t m) [] traversals"

text \<open>The object literal that both the hourly and the global branch push.\<close>

definition mkBaseline :: "string \<Rightarrow> int \<Rightarrow> TraversalData list \<Rightarrow> CorridorBaseline" where
  "mkBaseline cid hour ts' =
     \<lparr> corridorId = cid, bucketHour = hour, bcount = length ts',
       medianTravelSec = js_round (median (map travelSec ts')),
       p95SpeedKmh = percentile (map avgSpeedKmh ts') 95 \<rparr>"

definition computeBaselines ::
  "string \<Rightarrow> TraversalData list \<Rightarrow> real \<Rightarrow> CorridorBaseline list" where
  "computeBaselines cid traversals minSamplesForHourly =
     (let hourly = concat (map (\<lambda>(hour, hourTraversals).
                      if real (length hourTraversals) \<ge> minSamplesForHourly
                      then [mkBaseline cid hour hourTraversals] else [])
                    (hourlyBuckets traversals));
          global = (if length traversals > 0 then [mkBaseline cid (- 1) traversals] else [])
      in hourly @ global)"

definition getApplicableBaseline ::
  "CorridorBaseline list \<Rightarrow> int \<Rightarrow> CorridorBaseline option" where
  "getApplicableBaseline baselines timestamp =
     (let hour = getHourBucket timestamp
      in case find (\<lambda>b. bucketHour b = hour) baselines of
           Some hourlyBaseline \<Rightarrow> Some hourlyBaseline
         | None \<Rightarrow> find (\<lambda>b. bucketHour b = - 1) baselines)"

record DelayCheck =
  delayIsAlert :: bool
  deltaSec :: real

record OverspeedCheck =
  overspeedIsAlert :: bool
  deltaSpeedKmh :: real

definition checkDelayAlert :: "real \<Rightarrow> CorridorBaseline \<Rightarrow> real \<Rightarrow> DelayCheck" where
  "checkDelayAlert travel baseline thresholdMinutes =
     (let delta = travel - medianTravelSec baseline;
          thresholdSec = thresholdMinutes * 60
      in \<lparr> delayIsAlert = (delta \<ge> thresholdSec), deltaSec = delta \<rparr>)"

definition checkOverspeedAlert :: "real \<Rightarrow> CorridorBaseline \<Rightarrow> OverspeedCheck" where
  "checkOverspeedAlert avgSpeed baseline =
     (let delta = avgSpeed - p95SpeedKmh baseline
      in \<lparr> overspeedIsAlert = (delta > 0 \<and> p95SpeedKmh baseline > 0),
           deltaSpeedKmh = delta \<rparr>)"

section \<open>Alert service (lib/alert-service.ts, src/unnamed/part\_007)\<close>

text \<open>
  The database is a record of tables, each a list of rows in insertion order; \<open>emitted\<close>
  lists what was handed to \<open>alertEmitter.emit\<close>. Row ids and creation times that the
  storage engine fills in are left out where no code reads them; a new alert has
  \<open>resolvedAt = None\<close>. Database calls are taken to succeed.
\<close>

record AlertInput =
  in_corridorId :: string
  in_tripId :: string
  in_vehicleId :: string
  in_travelSec :: real
  in_avgSpeedKmh :: real
  in_timestamp :: int

datatype AlertDetails =
    DelayDetails real real int
  | OverspeedDetails real real int

record Alert =
  a_type :: AlertType
  a_corridorId :: string
  a_tripId :: string
  a_vehicleId :: string
  severity :: Severity
  deltaValue :: real
  details :: AlertDetails
  resolvedAt :: "int option"

record Vehicle =
  v_id :: string
  v_name :: string

record Trip =
  trip_id :: string
  trip_vehicleId :: string
  startTime :: int
  endTime :: int
  source :: string

record GPSPointRow = GPSFix +
  gp_tripId :: string

record DropRow = Drop +
  drop_tripId :: string

record Corridor = CorridorKey +
  c_id :: string

record TraversalRow = TraversalData +
  row_corridorId :: string
  row_tripId :: string
  row_endTs :: int
  row_startLat :: real
  row_startLon :: real
  row_endLat :: real
  row_endLon :: real

record DB =
  vehicles :: "Vehicle list"
  trips :: "Trip list"
  gpsPoints :: "GPSPointRow list"
  dropRows :: "DropRow list"
  corridors :: "Corridor list"
  traversalRows :: "TraversalRow list"
  corridorStats :: "CorridorBaseline list"
  alerts :: "Alert list"
  emitted :: "Alert list"
  idCounter :: nat

text \<open>\<open>prisma.alert.findFirst\<close> with \<open>resolvedAt: null\<close>.\<close>

definition findUnresolved :: "DB \<Rightarrow> AlertType \<Rightarrow> string \<Rightarrow> string \<Rightarrow> Alert option" where
  "findUnresolved db ty tripId' corridorId' =
     find (\<lambda>a. a_type a = ty \<and> a_tripId a = tripId' \<and> a_corridorId a = corridorId'
                \<and> resolvedAt a = None) (alerts db)"

text \<open>\<open>prisma.alert.create\<close> followed by \<open>alertEmitter.emit\<close>.\<close>

definition createAndEmit :: "DB \<Rightarrow> Alert \<Rightarrow> DB" where
  "createAndEmit db alert = db\<lparr> alerts := alerts db @ [alert], emitted := emitted db @ [alert] \<rparr>"

text \<open>
  The \<open>data\<close> objects of the two \<open>prisma.alert.create\<close> calls. The severity threshold
  of a delay is the delay threshold in seconds, that of an overspeed a tenth of the
  baseline speed.
\<close>

definition delayAlertData :: "real \<Rightarrow> AlertInput \<Rightarrow> CorridorBaseline \<Rightarrow> DelayCheck \<Rightarrow> Alert" where
  "delayAlertData delayThresholdMin input applicableBaseline delayCheck =
     \<lparr> a_type = delay,
       a_corridorId = in_corridorId input,
       a_tripId = in_tripId input,
       a_vehicleId = in_vehicleId input,
       severity = getAlertSeverity delay (deltaSec delayCheck) (delayThresholdMin * 60),
       deltaValue = deltaSec delayCheck,
       details = DelayDetails (in_travelSec input) (medianTravelSec applicableBaseline)
                   (bucketHour applicableBaseline),
       resolvedAt = None \<rparr>"

definition overspeedAlertData :: "AlertInput \<Rightarrow> CorridorBaseline \<Rightarrow> OverspeedCheck \<Rightarrow> Alert" where
  "overspeedAlertData input applicableBaseline overspeedCheck =
     \<lparr> a_type = overspeed,
       a_corridorId = in_corridorId input,
       a_tripId = in_tripId input,
       a_vehicleId = in_vehicleId input,
       severity = getAlertSeverity overspeed (deltaSpeedKmh overspeedCheck)
                    (p95SpeedKmh applicableBaseline * 0.1),
       deltaValue = deltaSpeedKmh overspeedCheck,
       details = OverspeedDetails (in_avgSpeedKmh input) (p95SpeedKmh applicableBaseline)
                   (bucketHour applicableBaseline),
       resolvedAt = None \<rparr>"

text \<open>The delay block of \<open>checkAndCreateAlerts\<close>: the alerts it pushes and the new state.\<close>

definition delayBlock ::
  "real \<Rightarrow> DB \<Rightarrow> AlertInput \<Rightarrow> CorridorBaseline \<Rightarrow> Alert list \<times> DB" where
  "delayBlock delayThresholdMin db input applicableBaseline =
     (let delayCheck = checkDelayAlert (in_travelSec input) applicableBaseline delayThresholdMin
      in if delayIsAlert delayCheck
         then (case findUnresolved db delay (in_tripId input) (in_corridorId input) of
                 Some existing \<Rightarrow> ([], db)
               | None \<Rightarrow>
                   let alert = delayAlertData delayThresholdMin input applicableBaseline delayCheck
                   in ([alert], createAndEmit db alert))
         else ([], db))"

text \<open>The overspeed block.\<close>

definition overspeedBlock ::
  "DB \<Rightarrow> AlertInput \<Rightarrow> CorridorBaseline \<Rightarrow> Alert list \<times> DB" where
  "overspeedBlock db input applicableBaseline =
     (let overspeedCheck = checkOverspeedAlert (in_avgSpeedKmh input) applicableBaseline
      in if overspeedIsAlert overspeedCheck
         then (case findUnresolved db overspeed (in_tripId input) (in_corridorId input) of
                 Some existing \<Rightarrow> ([], db)
               | None \<Rightarrow>
                   let alert = overspeedAlertData input applicableBaseline overspeedCheck
                   in ([alert], createAndEmit db alert))
         else ([], db))"

text \<open>
  \<open>checkAndCreateAlerts\<close> returns \<open>undefined\<close> (here \<open>None\<close>) when the corridor has no
  baseline row or none applies, and the array of created alerts otherwise.
  \<open>delayThresholdMin\<close> is the parsed \<open>DELAY_THRESHOLD_MINUTES\<close>, 15 when unset.
\<close>

definition checkAndCreateAlerts ::
  "real \<Rightarrow> DB \<Rightarrow> AlertInput \<Rightarrow> Alert list option \<times> DB" where
  "checkAndCreateAlerts delayThresholdMin db input =
     (let baselines = filter (\<lambda>b. corridorId b = in_corridorId input) (corridorStats db)
      in if length baselines = 0 then (None, db)
         else case getApplicableBaseline baselines (in_timestamp input) of
                None \<Rightarrow> (None, db)
              | Some applicableBaseline \<Rightarrow>
                  let (alerts1, db1) = delayBlock delayThresholdMin db input applicableBaseline;
                      (alerts2, db2) = overspeedBlock db1 input applicableBaseline
                  in (Some (alerts1 @ alerts2), db2))"

section \<open>Ingestion (POST /api/ingest, second document of src/app/api/heatmap/route.ts)\<close>

text \<open>
  A request body is a list of points whose fields have the JSON types the schema asks
  for; what the schema still has to check is the range of \<open>lat\<close> and \<open>lon\<close> and the
  timestamp string. The environment holds what lies outside the repository: the
  geometry, the test \<open>z.string().datetime()\<close> together with \<open>new Date(s).getTime()\<close>
  (\<open>None\<close> for a string the test rejects), the id generator of the storage engine, and
  the three parsed environment variables.
\<close>

record RawPoint =
  r_vehicleId :: string
  r_tripId :: "string option"
  r_ts :: string
  r_lat :: real
  r_lon :: real
  r_speed :: "real option"
  r_accuracy :: "real option"
  r_heading :: "real option"

record Point = GPSFix +
  vehicleId :: string
  tripId :: "string option"

record Env =
  geo :: Geo
  datetime :: "string \<Rightarrow> int option"
  newId :: "nat \<Rightarrow> string"
  TAU_SHORT :: int
  H3_RESOLUTION :: int
  DELAY_THRESHOLD_MINUTES :: int

record IngestResult =
  res_tripId :: string
  res_vehicleId :: string
  pointsProcessed :: nat
  dropsDetected :: nat
  corridorsTraversed :: nat

datatype Response = OkResponse "IngestResult list" | ErrorResponse nat string

definition GPS_POINT_SCHEMA :: "(string \<Rightarrow> int option) \<Rightarrow> RawPoint \<Rightarrow> Point option" where
  "GPS_POINT_SCHEMA dt r =
     (case dt (r_ts r) of
        None \<Rightarrow> None
      | Some t \<Rightarrow>
          if r_lat r < - 90 \<or> r_lat r > 90 then None
          else if r_lon r < - 180 \<or> r_lon r > 180 then None
          else Some \<lparr> ts = t, lat = r_lat r, lon = r_lon r, speed = r_speed r,
                      accuracy = r_accuracy r, heading = r_heading r,
                      vehicleId = r_vehicleId r, tripId = r_tripId r \<rparr>)"

fun BATCH_SCHEMA :: "(string \<Rightarrow> int option) \<Rightarrow> RawPoint list \<Rightarrow> Point list option" where
  "BATCH_SCHEMA dt [] = Some []"
| "BATCH_SCHEMA dt (r # rs) =
     (case GPS_POINT_SCHEMA dt r of
        None \<Rightarrow> None
      | Some p \<Rightarrow> (case BATCH_SCHEMA dt rs of None \<Rightarrow> None | Some ps \<Rightarrow> Some (p # ps)))"

definition TRIP_GAP_MINUTES :: real where
  "TRIP_GAP_MINUTES = 20"

text \<open>The segmentation loop, with its two accumulators \<open>trips\<close> and \<open>currentTrip\<close>.\<close>

fun segmentTrips :: "Point list \<Rightarrow> Point list list \<Rightarrow> Point list \<Rightarrow> Point list list" where
  "segmentTrips [] trips' currentTrip =
     (if length currentTrip > 0 then trips' @ [currentTrip] else trips')"
| "segmentTrips (point # points) trips' currentTrip =
     (if length currentTrip = 0 then segmentTrips points trips' [point]
      else
        let lastPoint = last currentTrip;
            gapMinutes = real_of_int (ts point - ts lastPoint) / 60000
        in if gapMinutes > TRIP_GAP_MINUTES
           then segmentTrips points (trips' @ [currentTrip]) [point]
           else segmentTrips points trips' (currentTrip @ [point]))"

text \<open>\<open>prisma.corridorStats.upsert\<close> on the key \<open>(corridorId, bucketHour)\<close>.\<close>

fun upsertStats :: "CorridorBaseline \<Rightarrow> CorridorBaseline list \<Rightarrow> CorridorBaseline list" where
  "upsertStats b [] = [b]"
| "upsertStats b (r # rs) =
     (if corridorId r = corridorId b \<and> bucketHour r = bucketHour b
      then r\<lparr> bcount := bcount b, medianTravelSec := medianTravelSec b,
               p95SpeedKmh := p95SpeedKmh b \<rparr> # rs
      else r # upsertStats b rs)"

definition updateCorridorBaselines :: "DB \<Rightarrow> string \<Rightarrow> DB" where
  "updateCorridorBaselines db cid =
     (let traversals = map TraversalData.truncate
                         (filter (\<lambda>r. row_corridorId r = cid) (traversalRows db))
      in if length traversals = 0 then db
         else
           let baselines = computeBaselines cid traversals 5
           in db\<lparr> corridorStats :=
                     foldl (\<lambda>stats b. upsertStats b stats) (corridorStats db) baselines \<rparr>)"

text \<open>The body of the loop over the traversals of one trip.\<close>

definition processTraversal :: "Env \<Rightarrow> string \<Rightarrow> string \<Rightarrow> DB \<Rightarrow> Traversal \<Rightarrow> DB" where
  "processTraversal env tripId' vehicleId' db traversal =
     (let key = corridorKey traversal;
          (corridor, db1) =
            (case find (\<lambda>c. aH3 c = aH3 key \<and> bH3 c = bH3 key \<and> direction c = direction key)
                    (corridors db) of
               Some c \<Rightarrow> (c, db)
             | None \<Rightarrow>
                 let c = \<lparr> aH3 = aH3 key, bH3 = bH3 key, direction = direction key,
                           c_id = newId env (idCounter db) \<rparr>
                 in (c, db\<lparr> corridors := corridors db @ [c],
                            idCounter := Suc (idCounter db) \<rparr>));
          row = \<lparr> travelSec = t_travelSec traversal,
                  avgSpeedKmh = t_avgSpeedKmh traversal,
                  td_startTs = t_startTs traversal,
                  row_corridorId = c_id corridor, row_tripId = tripId',
                  row_endTs = t_endTs traversal,
                  row_startLat = t_startLat traversal, row_startLon = t_startLon traversal,
                  row_endLat = t_endLat traversal, row_endLon = t_endLon traversal \<rparr>;
          db2 = db1\<lparr> traversalRows := traversalRows db1 @ [row] \<rparr>;
          db3 = updateCorridorBaselines db2 (c_id corridor);
          (created, db4) =
            checkAndCreateAlerts (real_of_int (DELAY_THRESHOLD_MINUTES env)) db3
              \<lparr> in_corridorId = c_id corridor, in_tripId = tripId',
                in_vehicleId = vehicleId',
                in_travelSec = t_travelSec traversal,
                in_avgSpeedKmh = t_avgSpeedKmh traversal,
                in_timestamp = t_startTs traversal \<rparr>
      in db4)"

text \<open>
  The body of the loop over the trips of one vehicle. A trip of fewer than two points is
  skipped. An empty \<open>tripId\<close> string is falsy and is treated as absent. GPSPoint has no
  unique key besides its id (plan.md, section 3), so \<open>skipDuplicates\<close> skips nothing.
\<close>

definition processTrip :: "Env \<Rightarrow> Vehicle \<Rightarrow> DB \<Rightarrow> Point list \<Rightarrow> IngestResult list \<times> DB" where
  "processTrip env vehicle db tripPoints =
     (case tripPoints of
        first # second # others \<Rightarrow>
          let startTime' = ts first;
              endTime' = ts (last tripPoints);
              found = (case tripId first of
                         None \<Rightarrow> None
                       | Some tid \<Rightarrow> if tid = [] then None
                                     else find (\<lambda>t. trip_id t = tid) (trips db));
              (trip, db1) =
                (case found of
                   None \<Rightarrow>
                     let t = \<lparr> trip_id = newId env (idCounter db), trip_vehicleId = v_id vehicle,
                               startTime = startTime', endTime = endTime',
                               source = ''api_ingest'' \<rparr>
                     in (t, db\<lparr> trips := trips db @ [t], idCounter := Suc (idCounter db) \<rparr>)
                 | Some t \<Rightarrow>
                     (t, db\<lparr> trips := map (\<lambda>r. if trip_id r = trip_id t
                                                then r\<lparr> endTime := endTime' \<rparr> else r)
                                         (trips db) \<rparr>));
              db2 = db1\<lparr> gpsPoints := gpsPoints db1 @
                          map (\<lambda>p. GPSFix.extend (GPSFix.truncate p)
                                     (GPSPointRow.fields (trip_id trip))) tripPoints \<rparr>;
              gpsFixes = map GPSFix.truncate tripPoints;
              tauShort = real_of_int (TAU_SHORT env);
              drops = detectDrops gpsFixes tauShort;
              db3 = (if length drops > 0
                     then db2\<lparr> dropRows := dropRows db2 @
                                 map (\<lambda>d. Drop.extend d (DropRow.fields (trip_id trip))) drops \<rparr>
                     else db2);
              traversals = extractCorridors (geo env) drops (H3_RESOLUTION env);
              db4 = foldl (processTraversal env (trip_id trip) (v_id vehicle)) db3 traversals
          in ([\<lparr> res_tripId = trip_id trip, res_vehicleId = v_id vehicle,
                   pointsProcessed = length tripPoints,
                   dropsDetected = length drops,
                   corridorsTraversed = length traversals \<rparr>], db4)
      | _ \<Rightarrow> ([], db))"

text \<open>The body of the loop over the vehicles of the batch.\<close>

definition processVehicle ::
  "Env \<Rightarrow> DB \<Rightarrow> string \<times> Point list \<Rightarrow> IngestResult list \<times> DB" where
  "processVehicle env db entry =
     (let (vehicleName, vehiclePoints) = entry;
          (vehicle, db1) =
            (case find (\<lambda>v. v_name v = vehicleName) (vehicles db) of
               Some v \<Rightarrow> (v, db)
             | None \<Rightarrow>
                 let v = \<lparr> v_id = newId env (idCounter db), v_name = vehicleName \<rparr>
                 in (v, db\<lparr> vehicles := vehicles db @ [v], idCounter := Suc (idCounter db) \<rparr>));
          sorted = sort_key ts vehiclePoints;
          trips' = segmentTrips sorted [] []
      in foldl (\<lambda>(results, dbi) tripPoints.
                  let (rs, dbj) = processTrip env vehicle dbi tripPoints
                  in (results @ rs, dbj))
           ([], db1) trips')"

text \<open>
  The handler. \<open>BATCH_SCHEMA.parse\<close> throws a \<open>ZodError\<close> before the first database
  call; the \<open>catch\<close> turns it into the 400 response.
\<close>

definition POST :: "Env \<Rightarrow> DB \<Rightarrow> RawPoint list \<Rightarrow> Response \<times> DB" where
  "POST env db points =
     (case BATCH_SCHEMA (datetime env) points of
        None \<Rightarrow> (ErrorResponse 400 ''Validation error'', db)
      | Some validatedPoints \<Rightarrow>
          if length validatedPoints = 0
          then (ErrorResponse 400 ''No points provided'', db)
          else
            let byVehicle = foldl (\<lambda>m point. mapPush (vehicleId point) point m) []
                              validatedPoints;
                (results, db') =
                  foldl (\<lambda>(results, dbi) entry.
                           let (rs, dbj) = processVehicle env dbi entry
                           in (results @ rs, dbj))
                    ([], db) byVehicle
            in (OkResponse results, db'))"

section \<open>Vocabulary of the statements\<close>

text \<open>
  Names for the quantities the loop body of \<open>extractCorridors\<close> computes for one drop,
  used to state what the loop emits.
\<close>

definition dropDistanceKm :: "Geo \<Rightarrow> Drop \<Rightarrow> real" where
  "dropDistanceKm g d = distance g (startLon d, startLat d) (endLon d, endLat d)"

definition dropAvgSpeedKmh :: "Geo \<Rightarrow> Drop \<Rightarrow> real" where
  "dropAvgSpeedKmh g d =
     (if durationSec d > 0 then dropDistanceKm g d / (durationSec d / 3600) else 0)"

definition dropDirection :: "Geo \<Rightarrow> Drop \<Rightarrow> int" where
  "dropDirection g d =
     js_rem_int \<lfloor>js_rem (bearing g (startLon d, startLat d) (endLon d, endLat d) + 360) 360
                  / 22.5\<rfloor> 16"

definition traversalOf :: "Geo \<Rightarrow> int \<Rightarrow> Drop \<Rightarrow> Traversal" where
  "traversalOf g res d =
     \<lparr> corridorKey = \<lparr> aH3 = latLngToCell g (startLat d) (startLon d) res,
                        bH3 = latLngToCell g (endLat d) (endLon d) res,
                        direction = dropDirection g d \<rparr>,
       t_startTs = startTs d, t_endTs = endTs d,
       t_travelSec = durationSec d, t_avgSpeedKmh = dropAvgSpeedKmh g d,
       t_startLat = startLat d, t_startLon = startLon d,
       t_endLat = endLat d, t_endLon = endLon d \<rparr>"

text \<open>The drops that pass: not a long gap, at least 10 metres, at most 200 km/h.\<close>

definition passesFilters :: "Geo \<Rightarrow> Drop \<Rightarrow> bool" where
  "passesFilters g d \<longleftrightarrow>
     reason d \<noteq> long_gap \<and> dropDistanceKm g d \<ge> 0.01 \<and> dropAvgSpeedKmh g d \<le> 200"

text \<open>The traversals that start in UTC hour \<open>h\<close>.\<close>

definition inHour :: "int \<Rightarrow> TraversalData list \<Rightarrow> TraversalData list" where
  "inHour h traversals = filter (\<lambda>t. getHourBucket (td_startTs t) = h) traversals"

text \<open>The baseline that \<open>checkAndCreateAlerts\<close> resolves for an input.\<close>

definition applicableFor :: "DB \<Rightarrow> AlertInput \<Rightarrow> CorridorBaseline option" where
  "applicableFor db input =
     (let baselines = filter (\<lambda>b. corridorId b = in_corridorId input) (corridorStats db)
      in if baselines = [] then None else getApplicableBaseline baselines (in_timestamp input))"

text \<open>The unresolved alerts of one (trip, corridor, type) triple.\<close>

definition unresolvedFor :: "AlertType \<Rightarrow> string \<Rightarrow> string \<Rightarrow> Alert list \<Rightarrow> Alert list" where
  "unresolvedFor ty trip cid as =
     filter (\<lambda>a. a_type a = ty \<and> a_tripId a = trip \<and> a_corridorId a = cid
                \<and> resolvedAt a = None) as"

definition atMostOneUnresolved :: "Alert list \<Rightarrow> bool" where
  "atMostOneUnresolved as \<longleftrightarrow> (\<forall>ty trip cid. length (unresolvedFor ty trip cid as) \<le> 1)"

text \<open>
  The alerts one call of \<open>checkAndCreateAlerts\<close> creates when baseline \<open>b\<close> applies: at most
  one delay alert and at most one overspeed alert, each depending only on its own check
  and on the unresolved alerts of its own type.
\<close>

definition newDelay :: "real \<Rightarrow> DB \<Rightarrow> AlertInput \<Rightarrow> CorridorBaseline \<Rightarrow> Alert list" where
  "newDelay thr db input b =
     (if delayIsAlert (checkDelayAlert (in_travelSec input) b thr)
         \<and> findUnresolved db delay (in_tripId input) (in_corridorId input) = None
      then [delayAlertData thr input b (checkDelayAlert (in_travelSec input) b thr)] else [])"

definition newOverspeed :: "DB \<Rightarrow> AlertInput \<Rightarrow> CorridorBaseline \<Rightarrow> Alert list" where
  "newOverspeed db input b =
     (if overspeedIsAlert (checkOverspeedAlert (in_avgSpeedKmh input) b)
         \<and> findUnresolved db overspeed (in_tripId input) (in_corridorId input) = None
      then [overspeedAlertData input b (checkOverspeedAlert (in_avgSpeedKmh input) b)] else [])"

definition createdBy :: "real \<Rightarrow> DB \<Rightarrow> AlertInput \<Rightarrow> Alert list" where
  "createdBy thr db input =
     (case applicableFor db input of
        None \<Rightarrow> []
      | Some b \<Rightarrow> newDelay thr db input b @ newOverspeed db input b)"

text \<open>A point that \<open>GPS_POINT_SCHEMA\<close> rejects.\<close>

definition invalidPoint :: "(string \<Rightarrow> int option) \<Rightarrow> RawPoint \<Rightarrow> bool" where
  "invalidPoint dt r \<longleftrightarrow>
     r_lat r < - 90 \<or> 90 < r_lat r \<or> r_lon r < - 180 \<or> 180 < r_lon r \<or> dt (r_ts r) = None"

section \<open>Sample data\<close>

text \<open>
  Concrete inputs on which the model is run. \<open>meridian_geo\<close> stands in for h3-js and
  @turf/turf there: it agrees with the great-circle distance (111.195 km per degree) and
  bearing (0 northwards, 180 southwards) on segments along a meridian, which is what the
  samples use, and it cuts the map into two cells at latitude 5.5. The general theorems
  hold for every \<open>Geo\<close>.
\<close>

definition mkFix :: "int \<Rightarrow> real \<Rightarrow> real \<Rightarrow> GPSFix" where
  "mkFix t la lo = \<lparr> ts = t, lat = la, lon = lo, speed = None, accuracy = None, heading = None \<rparr>"

definition mkDrop :: "int \<Rightarrow> int \<Rightarrow> real \<Rightarrow> real \<Rightarrow> DropReason \<Rightarrow> Drop" where
  "mkDrop t1 t2 la1 la2 r =
     \<lparr> startTs = t1, endTs = t2, startLat = la1, startLon = 100.5948,
       endLat = la2, endLon = 100.5948,
       durationSec = real_of_int (t2 - t1) / 1000, reason = r \<rparr>"

definition meridian_geo :: Geo where
  "meridian_geo =
     \<lparr> latLngToCell = (\<lambda>la lo res. if la < 5.5 then ''cell-south'' else ''cell-north''),
       distance = (\<lambda>(lo1, la1) (lo2, la2). 111.195 * (\<bar>la2 - la1\<bar> + \<bar>lo2 - lo1\<bar>)),
       bearing = (\<lambda>(lo1, la1) (lo2, la2). if la2 \<ge> la1 then 0 else 180) \<rparr>"

text \<open>Four fixes of one trip: gaps of 70, 180 and 700 seconds.\<close>

definition sampleTrip :: "GPSFix list" where
  "sampleTrip = [mkFix 0 5.4343 100.5948, mkFix 70000 5.4353 100.5948,
                 mkFix 250000 5.4363 100.5948, mkFix 950000 5.4373 100.5948]"

text \<open>Three fixes, the last two with the same timestamp, in both orders.\<close>

definition tieTripA :: "GPSFix list" where
  "tieTripA = [mkFix 0 5.4343 100.5948, mkFix 100000 5.4353 100.5948,
               mkFix 100000 5.4363 100.5948]"

definition tieTripB :: "GPSFix list" where
  "tieTripB = [mkFix 0 5.4343 100.5948, mkFix 100000 5.4363 100.5948,
               mkFix 100000 5.4353 100.5948]"

text \<open>Six traversals in hour 10, with travel times 100 and 101 seconds alternating.\<close>

definition mkTraversalData :: "real \<Rightarrow> real \<Rightarrow> int \<Rightarrow> TraversalData" where
  "mkTraversalData sec kmh t = \<lparr> travelSec = sec, avgSpeedKmh = kmh, td_startTs = t \<rparr>"

definition sixAtTen :: "TraversalData list" where
  "sixAtTen = [mkTraversalData 100 40 36000000, mkTraversalData 101 41 36060000,
               mkTraversalData 100 42 36120000, mkTraversalData 101 43 36180000,
               mkTraversalData 100 44 36240000, mkTraversalData 101 45 36300000]"

text \<open>Five traversals in hour 10 and three in hour 12.\<close>

definition fiveAtTen :: "TraversalData list" where
  "fiveAtTen = [mkTraversalData 300 40 36000000, mkTraversalData 310 41 36060000,
                mkTraversalData 200 30 43200000,
                mkTraversalData 290 42 36120000, mkTraversalData 305 43 36180000,
                mkTraversalData 210 31 43260000,
                mkTraversalData 300 44 36240000, mkTraversalData 220 32 43320000]"

text \<open>
  A database holding one global baseline for corridor \<open>c1\<close> (median 300 seconds, 95th
  percentile 50 km/h), and alert inputs of trip \<open>t1\<close> on that corridor.
\<close>

definition sampleBaseline :: CorridorBaseline where
  "sampleBaseline = \<lparr> corridorId = ''c1'', bucketHour = - 1, bcount = 5,
                       medianTravelSec = 300, p95SpeedKmh = 50 \<rparr>"

definition sampleDb :: DB where
  "sampleDb =
     \<lparr> vehicles = [], trips = [], gpsPoints = [], dropRows = [], corridors = [],
       traversalRows = [], corridorStats = [sampleBaseline],
       alerts = [], emitted = [], idCounter = 0 \<rparr>"

definition mkInput :: "real \<Rightarrow> real \<Rightarrow> AlertInput" where
  "mkInput sec kmh =
     \<lparr> in_corridorId = ''c1'', in_tripId = ''t1'', in_vehicleId = ''v1'',
       in_travelSec = sec, in_avgSpeedKmh = kmh, in_timestamp = 36000000 \<rparr>"

text \<open>
  An environment for running the handler: the stand-in geometry, a timestamp parser that
  knows two ISO strings (their epoch milliseconds) and rejects every other string, ids
  \<open>id-\<close>, \<open>id-x\<close>, \<open>id-xx\<close>, ... and the default settings.
\<close>

definition sampleEnv :: Env where
  "sampleEnv =
     \<lparr> geo = meridian_geo,
       datetime = (\<lambda>s. if s = ''2025-08-01T00:00:00Z'' then Some 1754006400000
                       else if s = ''2025-08-01T00:03:00Z'' then Some 1754006580000
                       else None),
       newId = (\<lambda>n. ''id-'' @ replicate n (CHR ''x'')),
       TAU_SHORT = 60, H3_RESOLUTION = 7, DELAY_THRESHOLD_MINUTES = 15 \<rparr>"

definition mkRaw :: "string \<Rightarrow> real \<Rightarrow> real \<Rightarrow> RawPoint" where
  "mkRaw t la lo =
     \<lparr> r_vehicleId = ''bus-1'', r_tripId = None, r_ts = t, r_lat = la, r_lon = lo,
       r_speed = None, r_accuracy = None, r_heading = None \<rparr>"

section \<open>Properties of drop detection\<close>

lemma dropLoop_short: "length xs < 2 \<Longrightarrow> dropLoop tauShort xs = []"
proof (cases xs)
  case Nil
  then show ?thesis by simp
next
  case (Cons x ys)
  assume "length xs < 2"
  with Cons have "ys = []" by simp
  with Cons show ?thesis by simp
qed

lemma detectDrops_eq_dropLoop:
  "detectDrops points tauShort = dropLoop tauShort (sort_key ts points)"
proof (cases "length points < 2")
  case True
  then have "length (sort_key ts points) < 2" by simp
  then have "dropLoop tauShort (sort_key ts points) = []"
    by (rule dropLoop_short)
  with True show ?thesis by (simp add: detectDrops_def)
next
  case False
  then show ?thesis by (simp add: detectDrops_def Let_def)
qed


text \<open>
  The two copies of the classification disagree at the default threshold: a gap of 80
  seconds is a weak signal for part\_009 and a micro drop for part\_008, a gap of 400
  seconds a weak signal for part\_009 and a long gap for part\_008. The statements below
  are about part\_009, the copy whose thresholds the project notes describe (URGENT\_FIX.md).
\<close>

lemma classifyGap_legacy_differs:
  "classifyGap 60 80 = weak_signal \<and> classifyGap_legacy 60 80 = micro_drop
   \<and> classifyGap 60 400 = weak_signal \<and> classifyGap_legacy 60 400 = long_gap"
  by (simp add: classifyGap_def classifyGap_legacy_def)




text \<open>
  C10 (as amended). \<open>detectDrops\<close> returns the gap events of the stably time-sorted
  list, so sorting the input first changes nothing; a list of fewer than two fixes gives
  no event; and two lists with the same fixes give the same events provided no two
  different fixes share a timestamp.
\<close>

theorem detectDrops_sorts_internally:
  "detectDrops points tauShort = dropLoop tauShort (sort_key ts points)
   \<and> detectDrops (sort_key ts points) tauShort = detectDrops points tauShort
   \<and> (length points < 2 \<longrightarrow> detectDrops points tauShort = [])
   \<and> (mset points' = mset points \<and> inj_on ts (set points)
        \<longrightarrow> detectDrops points' tauShort = detectDrops points tauShort)"
proof (intro conjI impI)
  show "detectDrops points tauShort = dropLoop tauShort (sort_key ts points)"
    by (rule detectDrops_eq_dropLoop)
  have "sort_key ts (sort_key ts points) = sort_key ts points"
    by (rule sort_key_id_if_sorted) simp
  then show "detectDrops (sort_key ts points) tauShort = detectDrops points tauShort"
    by (simp add: detectDrops_eq_dropLoop)
  show "detectDrops points tauShort = []" if "length points < 2"
    using that by (simp add: detectDrops_def)
  show "detectDrops points' tauShort = detectDrops points tauShort"
    if h: "mset points' = mset points \<and> inj_on ts (set points)"
  proof -
    from h have "set points' = set points" by (metis set_mset_mset)
    with h have inj: "inj_on ts (set points')" by simp
    have srt: "sorted (map ts (sort_key ts points))" by simp
    have "mset points' = mset (sort_key ts points)" using h by simp
    from this inj srt have "sort_key ts points' = sort_key ts points"
      by (rule sort_key_inj_key_eq)
    then show ?thesis by (simp add: detectDrops_eq_dropLoop)
  qed
qed

theorem detectDrops_sorts_internally_witness:
  "mset (rev sampleTrip) = mset sampleTrip \<and> inj_on ts (set sampleTrip)
   \<and> detectDrops (rev sampleTrip) 60 = detectDrops sampleTrip 60
   \<and> length [mkFix 0 5.4343 100.5948] < 2
   \<and> detectDrops [mkFix 0 5.4343 100.5948] 60 = []"
proof -
  have i: "inj_on ts (set sampleTrip)"
    by (simp add: sampleTrip_def mkFix_def)
  have m: "mset (rev sampleTrip) = mset sampleTrip" by simp
  have l: "length [mkFix 0 5.4343 100.5948] < 2" by simp
  from detectDrops_sorts_internally [of sampleTrip 60 "rev sampleTrip"] i m
  have "detectDrops (rev sampleTrip) 60 = detectDrops sampleTrip 60" by blast
  moreover from detectDrops_sorts_internally [of "[mkFix 0 5.4343 100.5948]" 60] l
  have "detectDrops [mkFix 0 5.4343 100.5948] 60 = []" by blast
  ultimately show ?thesis using i m l by blast
qed

text \<open>
  The claim C10 as stated fails when two fixes share a timestamp: the stable sort keeps
  their input order, and the drop that ends at the tie ends at whichever came first.
\<close>

theorem detectDrops_permutation_counterexample:
  "mset tieTripB = mset tieTripA
   \<and> detectDrops tieTripA 60 = [mkDrop 0 100000 5.4343 5.4353 weak_signal]
   \<and> detectDrops tieTripB 60 = [mkDrop 0 100000 5.4343 5.4363 weak_signal]
   \<and> detectDrops tieTripA 60 \<noteq> detectDrops tieTripB 60"
proof -
  have a: "detectDrops tieTripA 60 = [mkDrop 0 100000 5.4343 5.4353 weak_signal]"
    by (simp add: detectDrops_def tieTripA_def mkFix_def mkDrop_def classifyGap_def Let_def)
  have b: "detectDrops tieTripB 60 = [mkDrop 0 100000 5.4343 5.4363 weak_signal]"
    by (simp add: detectDrops_def tieTripB_def mkFix_def mkDrop_def classifyGap_def Let_def)
  have m: "mset tieTripB = mset tieTripA"
    by (simp add: tieTripA_def tieTripB_def)
  have "mkDrop 0 100000 5.4343 5.4353 weak_signal \<noteq> mkDrop 0 100000 5.4343 5.4363 weak_signal"
    by (simp add: mkDrop_def)
  with a b m show ?thesis by simp
qed

section \<open>Properties of corridor extraction\<close>

lemma extractCorridors_step:
  "extractCorridors g (d # drops) res =
     (if passesFilters g d then traversalOf g res d # extractCorridors g drops res
      else extractCorridors g drops res)"
  by (auto simp: passesFilters_def traversalOf_def dropDistanceKm_def
      dropAvgSpeedKmh_def dropDirection_def Let_def)

lemma extractCorridors_map_filter:
  "extractCorridors g drops res = map (traversalOf g res) (filter (passesFilters g) drops)"
proof (induction drops)
  case Nil
  show ?case by simp
next
  case (Cons d drops)
  then show ?case by (simp add: extractCorridors_step del: extractCorridors.simps)
qed

text \<open>
  C2 (as amended). Corridor extraction emits, in order, exactly one Traversal for every
  drop that is not extended (\<open>long_gap\<close>), whose endpoints are at least 10 metres apart
  and whose average speed is at most 200 km/h, and none for any other drop. A micro drop
  is treated like a transit drop; an extended drop never produces a Traversal.
\<close>

theorem extractCorridors_emits_iff:
  "extractCorridors g drops res = map (traversalOf g res) (filter (passesFilters g) drops)
   \<and> (extractCorridors g [d] res \<noteq> [] \<longleftrightarrow>
        reason d \<noteq> long_gap \<and> dropDistanceKm g d \<ge> 0.01 \<and> dropAvgSpeedKmh g d \<le> 200)
   \<and> extractCorridors g (filter (\<lambda>d. reason d = long_gap) drops) res = []"
proof -
  have "filter (passesFilters g) (filter (\<lambda>d. reason d = long_gap) drops) = []"
    by (induction drops) (simp_all add: passesFilters_def)
  then show ?thesis
    by (simp add: extractCorridors_map_filter) (simp add: passesFilters_def)
qed

text \<open>
  The claim C2 as stated fails on a micro drop: 111 metres in 70 seconds (5.7 km/h)
  passes both filters and is emitted.
\<close>

theorem extractCorridors_micro_counterexample:
  "reason (mkDrop 0 70000 5.4343 5.4353 micro_drop) = micro_drop
   \<and> map t_travelSec (extractCorridors meridian_geo [mkDrop 0 70000 5.4343 5.4353 micro_drop] 7)
       = [70]"
  by (simp add: mkDrop_def meridian_geo_def Let_def)


section \<open>Properties of the baselines\<close>

lemma mapPush_keys:
  "map fst (mapPush k v m) = (if k \<in> fst ` set m then map fst m else map fst m @ [k])"
  by (induction m) force+

lemma mapPush_distinct: "distinct (map fst m) \<Longrightarrow> distinct (map fst (mapPush k v m))"
  by (simp add: mapPush_keys)

lemma map_of_mapPush:
  "map_of (mapPush k v m) =
     (map_of m)(k \<mapsto> (case map_of m k of None \<Rightarrow> [v] | Some vs \<Rightarrow> vs @ [v]))"
  by (induction m) (auto simp: fun_eq_iff)

lemma groupFold_distinct:
  "distinct (map fst m) \<Longrightarrow> distinct (map fst (foldl (\<lambda>m t. mapPush (key t) t m) m xs))"
  by (induction xs arbitrary: m) (simp_all add: mapPush_distinct)

lemma groupFold_map_of:
  "map_of (foldl (\<lambda>m t. mapPush (key t) t m) m xs) h =
     (case map_of m h of
        None \<Rightarrow> (if filter (\<lambda>t. key t = h) xs = [] then None
                  else Some (filter (\<lambda>t. key t = h) xs))
      | Some vs \<Rightarrow> Some (vs @ filter (\<lambda>t. key t = h) xs))"
proof (induction xs arbitrary: m)
  case Nil
  show ?case by (simp split: option.splits)
next
  case (Cons x xs)
  show ?case
    by (simp add: Cons.IH map_of_mapPush split: option.splits)
qed

lemma hourlyBuckets_distinct: "distinct (map fst (hourlyBuckets ts'))"
  unfolding hourlyBuckets_def by (rule groupFold_distinct) simp

lemma hourlyBuckets_map_of:
  "map_of (hourlyBuckets ts') h = (if inHour h ts' = [] then None else Some (inHour h ts'))"
  unfolding hourlyBuckets_def inHour_def
  by (simp add: groupFold_map_of [where key = "\<lambda>t. getHourBucket (td_startTs t)"])

lemma filter_concat_buckets:
  "distinct (map fst m) \<Longrightarrow>
   filter (\<lambda>b. bucketHour b = h)
     (concat (map (\<lambda>(hour, hts). if real (length hts) \<ge> minS
                     then [mkBaseline cid hour hts] else []) m))
   = (case map_of m h of
        None \<Rightarrow> []
      | Some hts \<Rightarrow> if real (length hts) \<ge> minS then [mkBaseline cid h hts] else [])"
proof (induction m)
  case Nil
  show ?case by simp
next
  case (Cons kv m)
  obtain k v where kv: "kv = (k, v)" by (cases kv)
  from Cons.prems kv have d: "distinct (map fst m)" and nk: "k \<notin> fst ` set m" by auto
  from nk have none: "map_of m k = None" by (simp add: map_of_eq_None_iff)
  show ?case
    using Cons.IH [OF d] none kv
    by (auto simp: mkBaseline_def split: option.splits)
qed

lemma getHourBucket_range: "0 \<le> getHourBucket t \<and> getHourBucket t \<le> 23"
  by (simp add: getHourBucket_def) 

lemma inHour_neg: "h < 0 \<Longrightarrow> inHour h ts' = []"
proof -
  assume "h < 0"
  then have "getHourBucket (td_startTs t) \<noteq> h" for t :: TraversalData
    using getHourBucket_range [of "td_startTs t"] by linarith
  then show ?thesis by (simp add: inHour_def)
qed

lemma computeBaselines_hour:
  "h \<noteq> - 1 \<Longrightarrow>
   filter (\<lambda>b. bucketHour b = h) (computeBaselines cid ts' minS) =
     (if inHour h ts' \<noteq> [] \<and> real (length (inHour h ts')) \<ge> minS
      then [mkBaseline cid h (inHour h ts')] else [])"
  by (simp add: computeBaselines_def Let_def filter_concat_buckets [OF hourlyBuckets_distinct]
      hourlyBuckets_map_of mkBaseline_def)

lemma computeBaselines_global:
  "filter (\<lambda>b. bucketHour b = - 1) (computeBaselines cid ts' minS) =
     (if ts' = [] then [] else [mkBaseline cid (- 1) ts'])"
  by (simp add: computeBaselines_def Let_def filter_concat_buckets [OF hourlyBuckets_distinct]
      hourlyBuckets_map_of inHour_neg) (simp add: mkBaseline_def)

lemma find_filter:
  "find P xs = (case filter P xs of [] \<Rightarrow> None | x # _ \<Rightarrow> Some x)"
  by (induction xs) auto

lemma percentile_index:
  assumes "values \<noteq> []" "0 \<le> p" "p \<le> 100"
  shows "nat (max 0 (\<lceil>(p / 100) * real (length (sort values))\<rceil> - 1)) < length (sort values)"
proof -
  let ?n = "length (sort values)"
  from assms have n: "0 < ?n" by simp
  have "(p / 100) * real ?n \<le> 1 * real ?n"
    using assms by (intro mult_right_mono) auto
  then have "\<lceil>(p / 100) * real ?n\<rceil> \<le> int ?n"
    by (simp add: ceiling_le_iff)
  moreover from n have "0 < int ?n" by simp
  ultimately have "max 0 (\<lceil>(p / 100) * real ?n\<rceil> - 1) < int ?n" by linarith
  then show ?thesis by linarith
qed

text \<open>
  C4 (as amended). For an empty traversal set there is no baseline. Otherwise there is
  exactly one global baseline (bucket \<open>-1\<close>), over all traversals whatever their number;
  and for every hour \<open>h\<close> there is exactly one hourly baseline when at least one
  traversal starts in hour \<open>h\<close> and their number is at least \<open>minSamples\<close>, and none
  otherwise (for a positive \<open>minSamples\<close>: iff at least \<open>minSamples\<close> traversals start
  in hour \<open>h\<close>). A baseline holds the number of its traversals, their median travel time
  rounded to the nearest integer (halves upwards), and their 95th-percentile speed.
\<close>

theorem computeBaselines_buckets:
  "computeBaselines cid [] minS = []
   \<and> (traversals \<noteq> [] \<longrightarrow>
        filter (\<lambda>b. bucketHour b = - 1) (computeBaselines cid traversals minS)
          = [mkBaseline cid (- 1) traversals])
   \<and> (h \<noteq> - 1 \<longrightarrow>
        filter (\<lambda>b. bucketHour b = h) (computeBaselines cid traversals minS)
          = (if inHour h traversals \<noteq> [] \<and> real (length (inHour h traversals)) \<ge> minS
             then [mkBaseline cid h (inHour h traversals)] else []))
   \<and> (h \<noteq> - 1 \<and> 0 < minS \<longrightarrow>
        ((\<exists>b \<in> set (computeBaselines cid traversals minS). bucketHour b = h)
          \<longleftrightarrow> real (length (inHour h traversals)) \<ge> minS))
   \<and> mkBaseline cid h xs =
        \<lparr> corridorId = cid, bucketHour = h, bcount = length xs,
          medianTravelSec = real_of_int \<lfloor>median (map travelSec xs) + 1 / 2\<rfloor>,
          p95SpeedKmh = percentile (map avgSpeedKmh xs) 95 \<rparr>"
proof (intro conjI impI)
  show "computeBaselines cid [] minS = []"
    by (simp add: computeBaselines_def hourlyBuckets_def)
  show "filter (\<lambda>b. bucketHour b = - 1) (computeBaselines cid traversals minS)
          = [mkBaseline cid (- 1) traversals]" if "traversals \<noteq> []"
    using that by (simp add: computeBaselines_global)
  show "filter (\<lambda>b. bucketHour b = h) (computeBaselines cid traversals minS)
          = (if inHour h traversals \<noteq> [] \<and> real (length (inHour h traversals)) \<ge> minS
             then [mkBaseline cid h (inHour h traversals)] else [])" if "h \<noteq> - 1"
    using that by (rule computeBaselines_hour)
  show "(\<exists>b \<in> set (computeBaselines cid traversals minS). bucketHour b = h)
          \<longleftrightarrow> real (length (inHour h traversals)) \<ge> minS" if hm: "h \<noteq> - 1 \<and> 0 < minS"
  proof -
    have "(\<exists>b \<in> set (computeBaselines cid traversals minS). bucketHour b = h)
            \<longleftrightarrow> filter (\<lambda>b. bucketHour b = h) (computeBaselines cid traversals minS) \<noteq> []"
      by (simp add: filter_empty_conv)
    also have "\<dots> \<longleftrightarrow> inHour h traversals \<noteq> [] \<and> real (length (inHour h traversals)) \<ge> minS"
      using hm by (simp add: computeBaselines_hour)
    also have "\<dots> \<longleftrightarrow> real (length (inHour h traversals)) \<ge> minS"
      using hm by auto
    finally show ?thesis .
  qed
  show "mkBaseline cid h xs =
        \<lparr> corridorId = cid, bucketHour = h, bcount = length xs,
          medianTravelSec = real_of_int \<lfloor>median (map travelSec xs) + 1 / 2\<rfloor>,
          p95SpeedKmh = percentile (map avgSpeedKmh xs) 95 \<rparr>"
    by (simp add: mkBaseline_def js_round_def)
qed

lemma inHour_sixAtTen: "inHour 10 sixAtTen = sixAtTen"
  by (simp add: inHour_def sixAtTen_def mkTraversalData_def getHourBucket_def)

theorem computeBaselines_buckets_witness:
  "sixAtTen \<noteq> [] \<and> (10::int) \<noteq> - 1 \<and> (0::real) < 5
   \<and> filter (\<lambda>b. bucketHour b = - 1) (computeBaselines ''c1'' sixAtTen 5)
        = [mkBaseline ''c1'' (- 1) sixAtTen]
   \<and> filter (\<lambda>b. bucketHour b = 10) (computeBaselines ''c1'' sixAtTen 5)
        = [mkBaseline ''c1'' 10 sixAtTen]
   \<and> real (length (inHour 10 sixAtTen)) \<ge> 5"
proof -
  have ne: "sixAtTen \<noteq> []" by (simp add: sixAtTen_def)
  have len: "real (length (inHour 10 sixAtTen)) \<ge> 5"
    by (simp add: inHour_sixAtTen) (simp add: sixAtTen_def)
  from computeBaselines_buckets [of "''c1''" 5 sixAtTen 10 "[]"] ne len
  show ?thesis by (simp add: inHour_sixAtTen)
qed

text \<open>
  The claim C4 as stated fails on the stored median: six traversals with travel times
  100, 101, 100, 101, 100, 101 have median 100.5, and both baselines hold 101.
\<close>

theorem computeBaselines_median_counterexample:
  "map bucketHour (computeBaselines ''c1'' sixAtTen 5) = [10, - 1]
   \<and> map medianTravelSec (computeBaselines ''c1'' sixAtTen 5) = [101, 101]
   \<and> median (map travelSec sixAtTen) = 100.5"
  by (simp add: computeBaselines_def hourlyBuckets_def sixAtTen_def mkTraversalData_def
      getHourBucket_def mkBaseline_def median_def js_round_def Let_def)

text \<open>
  C5. \<open>getApplicableBaseline\<close> returns the first baseline whose \<open>bucketHour\<close> is the UTC
  hour of the timestamp if there is one, else the first global baseline (\<open>bucketHour = -1\<close>)
  if there is one, else nothing. For baselines computed (with the default threshold 5)
  from traversals of which exactly 5 start in hour 10 and fewer than 5 in every other
  hour, it returns the hourly baseline at a timestamp in hour 10 and the global baseline
  at a timestamp in hour 11.
\<close>

theorem getApplicableBaseline_contract:
  "getApplicableBaseline baselines t =
     (case filter (\<lambda>b. bucketHour b = getHourBucket t) baselines of
        b # _ \<Rightarrow> Some b
      | [] \<Rightarrow> (case filter (\<lambda>b. bucketHour b = - 1) baselines of
                 g # _ \<Rightarrow> Some g
               | [] \<Rightarrow> None))
   \<and> (length (inHour 10 traversals) = 5
        \<and> (\<forall>h. h \<noteq> 10 \<longrightarrow> length (inHour h traversals) < 5)
        \<and> getHourBucket t10 = 10 \<and> getHourBucket t11 = 11
      \<longrightarrow> getApplicableBaseline (computeBaselines cid traversals 5) t10
            = Some (mkBaseline cid 10 (inHour 10 traversals))
        \<and> getApplicableBaseline (computeBaselines cid traversals 5) t11
            = Some (mkBaseline cid (- 1) traversals))"
proof (intro conjI impI)
  show c: "getApplicableBaseline baselines t =
     (case filter (\<lambda>b. bucketHour b = getHourBucket t) baselines of
        b # _ \<Rightarrow> Some b
      | [] \<Rightarrow> (case filter (\<lambda>b. bucketHour b = - 1) baselines of
                 g # _ \<Rightarrow> Some g
               | [] \<Rightarrow> None))" for baselines t
    by (simp add: getApplicableBaseline_def Let_def find_filter split: list.splits)
  assume h: "length (inHour 10 traversals) = 5
        \<and> (\<forall>h. h \<noteq> 10 \<longrightarrow> length (inHour h traversals) < 5)
        \<and> getHourBucket t10 = 10 \<and> getHourBucket t11 = 11"
  then have ne10: "inHour 10 traversals \<noteq> []" by auto
  then have ne: "traversals \<noteq> []" by (auto simp: inHour_def)
  from h have f10: "filter (\<lambda>b. bucketHour b = getHourBucket t10) (computeBaselines cid traversals 5)
                = [mkBaseline cid 10 (inHour 10 traversals)]"
    using ne10 by (simp add: computeBaselines_hour)
  from h have l11: "length (inHour 11 traversals) < 5" by simp
  from h l11 have f11: "filter (\<lambda>b. bucketHour b = getHourBucket t11) (computeBaselines cid traversals 5) = []"
    by (simp add: computeBaselines_hour not_le)
  show "getApplicableBaseline (computeBaselines cid traversals 5) t10
            = Some (mkBaseline cid 10 (inHour 10 traversals))"
    by (simp add: c f10)
  show "getApplicableBaseline (computeBaselines cid traversals 5) t11
            = Some (mkBaseline cid (- 1) traversals)"
    using ne by (simp add: c f11 computeBaselines_global)
qed

lemma inHour_fiveAtTen:
  "inHour h fiveAtTen =
     (if h = 10 then [mkTraversalData 300 40 36000000, mkTraversalData 310 41 36060000,
                      mkTraversalData 290 42 36120000, mkTraversalData 305 43 36180000,
                      mkTraversalData 300 44 36240000]
      else if h = 12 then [mkTraversalData 200 30 43200000, mkTraversalData 210 31 43260000,
                           mkTraversalData 220 32 43320000]
      else [])"
  by (simp add: inHour_def fiveAtTen_def mkTraversalData_def getHourBucket_def)

theorem getApplicableBaseline_contract_witness:
  "length (inHour 10 fiveAtTen) = 5
   \<and> length (inHour 12 fiveAtTen) = 3
   \<and> getHourBucket 36500000 = 10 \<and> getHourBucket 39700000 = 11
   \<and> map_option bucketHour (getApplicableBaseline (computeBaselines ''c1'' fiveAtTen 5) 36500000)
        = Some 10
   \<and> map_option bucketHour (getApplicableBaseline (computeBaselines ''c1'' fiveAtTen 5) 39700000)
        = Some (- 1)"
proof -
  have a: "length (inHour 10 fiveAtTen) = 5" by (simp add: inHour_fiveAtTen)
  have b: "\<forall>h. h \<noteq> 10 \<longrightarrow> length (inHour h fiveAtTen) < 5" by (simp add: inHour_fiveAtTen)
  have c: "getHourBucket 36500000 = 10" "getHourBucket 39700000 = 11"
    by (simp_all add: getHourBucket_def)
  from getApplicableBaseline_contract [of "[]" 0 fiveAtTen 36500000 39700000 "''c1''"] a b c
  have "getApplicableBaseline (computeBaselines ''c1'' fiveAtTen 5) 36500000
            = Some (mkBaseline ''c1'' 10 (inHour 10 fiveAtTen))
        \<and> getApplicableBaseline (computeBaselines ''c1'' fiveAtTen 5) 39700000
            = Some (mkBaseline ''c1'' (- 1) fiveAtTen)"
    by blast
  then show ?thesis using a c by (simp add: mkBaseline_def inHour_fiveAtTen)
qed

section \<open>Properties of the alert service\<close>

lemma find_append_one:
  "find P (xs @ [x]) = (case find P xs of Some y \<Rightarrow> Some y | None \<Rightarrow> if P x then Some x else None)"
  by (induction xs) auto

lemma findUnresolved_None_iff:
  "findUnresolved db ty trip cid = None \<longleftrightarrow> unresolvedFor ty trip cid (alerts db) = []"
  by (auto simp: findUnresolved_def unresolvedFor_def find_None_iff filter_empty_conv)

lemma delayBlock_eq:
  "delayBlock thr db input b =
     (if delayIsAlert (checkDelayAlert (in_travelSec input) b thr)
         \<and> findUnresolved db delay (in_tripId input) (in_corridorId input) = None
      then ([delayAlertData thr input b (checkDelayAlert (in_travelSec input) b thr)],
            createAndEmit db (delayAlertData thr input b (checkDelayAlert (in_travelSec input) b thr)))
      else ([], db))"
  by (simp add: delayBlock_def Let_def split: option.splits)

lemma overspeedBlock_eq:
  "overspeedBlock db input b =
     (if overspeedIsAlert (checkOverspeedAlert (in_avgSpeedKmh input) b)
         \<and> findUnresolved db overspeed (in_tripId input) (in_corridorId input) = None
      then ([overspeedAlertData input b (checkOverspeedAlert (in_avgSpeedKmh input) b)],
            createAndEmit db (overspeedAlertData input b (checkOverspeedAlert (in_avgSpeedKmh input) b)))
      else ([], db))"
  by (simp add: overspeedBlock_def Let_def split: option.splits)

lemma checkAndCreateAlerts_eq:
  "checkAndCreateAlerts thr db input =
     (case applicableFor db input of
        None \<Rightarrow> (None, db)
      | Some b \<Rightarrow> (Some (fst (delayBlock thr db input b)
                          @ fst (overspeedBlock (snd (delayBlock thr db input b)) input b)),
                   snd (overspeedBlock (snd (delayBlock thr db input b)) input b)))"
  by (simp add: checkAndCreateAlerts_def applicableFor_def Let_def split_beta
      split: option.splits)

lemma findUnresolved_createAndEmit_other:
  "a_type a \<noteq> ty \<Longrightarrow> findUnresolved (createAndEmit db a) ty trip cid = findUnresolved db ty trip cid"
  by (simp add: findUnresolved_def createAndEmit_def find_append_one split: option.splits)

lemma a_type_delayAlertData [simp]: "a_type (delayAlertData thr input b c) = delay"
  by (simp add: delayAlertData_def)

lemma a_type_overspeedAlertData [simp]: "a_type (overspeedAlertData input b c) = overspeed"
  by (simp add: overspeedAlertData_def)

lemma findUnresolved_after_delayBlock:
  "findUnresolved (snd (delayBlock thr db input b)) overspeed trip cid
     = findUnresolved db overspeed trip cid"
  by (simp add: delayBlock_eq findUnresolved_createAndEmit_other)

lemma delayBlock_new:
  "fst (delayBlock thr db input b) = newDelay thr db input b"
  "alerts (snd (delayBlock thr db input b)) = alerts db @ newDelay thr db input b"
  "emitted (snd (delayBlock thr db input b)) = emitted db @ newDelay thr db input b"
  by (simp_all add: delayBlock_eq newDelay_def createAndEmit_def)

lemma overspeedBlock_new:
  "fst (overspeedBlock db input b) = newOverspeed db input b"
  "alerts (snd (overspeedBlock db input b)) = alerts db @ newOverspeed db input b"
  "emitted (snd (overspeedBlock db input b)) = emitted db @ newOverspeed db input b"
  by (simp_all add: overspeedBlock_eq newOverspeed_def createAndEmit_def)

lemma newOverspeed_after_delayBlock:
  "newOverspeed (snd (delayBlock thr db input b)) input b = newOverspeed db input b"
  by (simp add: newOverspeed_def findUnresolved_after_delayBlock)

lemma checkAndCreateAlerts_Some:
  assumes "applicableFor db input = Some b"
  shows "fst (checkAndCreateAlerts thr db input) = Some (newDelay thr db input b @ newOverspeed db input b)"
    and "alerts (snd (checkAndCreateAlerts thr db input))
           = alerts db @ newDelay thr db input b @ newOverspeed db input b"
    and "emitted (snd (checkAndCreateAlerts thr db input))
           = emitted db @ newDelay thr db input b @ newOverspeed db input b"
  using assms
  by (simp_all add: checkAndCreateAlerts_eq delayBlock_new overspeedBlock_new
      newOverspeed_after_delayBlock)

lemma checkAndCreateAlerts_None:
  assumes "applicableFor db input = None"
  shows "checkAndCreateAlerts thr db input = (None, db)"
  using assms by (simp add: checkAndCreateAlerts_eq)

lemma applicableFor_sampleDb: "applicableFor sampleDb (mkInput sec kmh) = Some sampleBaseline"
  by (simp add: applicableFor_def sampleDb_def mkInput_def sampleBaseline_def
      getApplicableBaseline_def getHourBucket_def)

lemma findUnresolved_sampleDb: "findUnresolved sampleDb ty trip cid = None"
  by (simp add: findUnresolved_def sampleDb_def)

lemma run_sampleDb:
  "fst (checkAndCreateAlerts thr sampleDb (mkInput sec kmh))
     = Some (newDelay thr sampleDb (mkInput sec kmh) sampleBaseline
             @ newOverspeed sampleDb (mkInput sec kmh) sampleBaseline)"
  by (simp add: checkAndCreateAlerts_Some [OF applicableFor_sampleDb])

lemma newDelay_sampleDb:
  "newDelay 15 sampleDb (mkInput sec kmh) sampleBaseline
     = (if sec - 300 \<ge> 900
        then [delayAlertData 15 (mkInput sec kmh) sampleBaseline
                (checkDelayAlert sec sampleBaseline 15)] else [])"
  by (simp add: newDelay_def findUnresolved_sampleDb checkDelayAlert_def mkInput_def
      sampleBaseline_def)

lemma newOverspeed_sampleDb:
  "newOverspeed sampleDb (mkInput sec kmh) sampleBaseline
     = (if kmh - 50 > 0
        then [overspeedAlertData (mkInput sec kmh) sampleBaseline
                (checkOverspeedAlert kmh sampleBaseline)] else [])"
  by (simp add: newOverspeed_def findUnresolved_sampleDb checkOverspeedAlert_def mkInput_def
      sampleBaseline_def)

text \<open>
  C7. The overspeed check alerts iff \<open>delta = avgSpeedKmh - p95SpeedKmh\<close> is positive and
  the baseline speed is positive. With an applicable baseline, the alerts of one call
  are the delay part followed by the overspeed part; each part has at most one alert, of
  its own type, and is decided by its own check and its own deduplication lookup only.
  Zero, one (of either type) and two alerts all occur.
\<close>

theorem overspeed_check_independent:
  "(overspeedIsAlert (checkOverspeedAlert v b) \<longleftrightarrow> v - p95SpeedKmh b > 0 \<and> p95SpeedKmh b > 0)
   \<and> deltaSpeedKmh (checkOverspeedAlert v b) = v - p95SpeedKmh b
   \<and> (applicableFor db input = None \<longrightarrow> checkAndCreateAlerts thr db input = (None, db))
   \<and> (applicableFor db input = Some ab \<longrightarrow>
        fst (checkAndCreateAlerts thr db input)
          = Some (newDelay thr db input ab @ newOverspeed db input ab)
        \<and> (newOverspeed db input ab \<noteq> [] \<longleftrightarrow>
             in_avgSpeedKmh input - p95SpeedKmh ab > 0 \<and> p95SpeedKmh ab > 0
             \<and> findUnresolved db overspeed (in_tripId input) (in_corridorId input) = None)
        \<and> (newDelay thr db input ab \<noteq> [] \<longleftrightarrow>
             in_travelSec input - medianTravelSec ab \<ge> thr * 60
             \<and> findUnresolved db delay (in_tripId input) (in_corridorId input) = None))
   \<and> length (newDelay thr db input ab) \<le> 1
   \<and> length (newOverspeed db input ab) \<le> 1
   \<and> (\<forall>a \<in> set (newDelay thr db input ab). a_type a = delay)
   \<and> (\<forall>a \<in> set (newOverspeed db input ab). a_type a = overspeed)
   \<and> map_option (map a_type) (fst (checkAndCreateAlerts 15 sampleDb (mkInput 400 40))) = Some []
   \<and> map_option (map a_type) (fst (checkAndCreateAlerts 15 sampleDb (mkInput 1400 40)))
        = Some [delay]
   \<and> map_option (map a_type) (fst (checkAndCreateAlerts 15 sampleDb (mkInput 400 60)))
        = Some [overspeed]
   \<and> map_option (map a_type) (fst (checkAndCreateAlerts 15 sampleDb (mkInput 1400 60)))
        = Some [delay, overspeed]"
proof (intro conjI impI)
  show "overspeedIsAlert (checkOverspeedAlert v b) \<longleftrightarrow> v - p95SpeedKmh b > 0 \<and> p95SpeedKmh b > 0"
    by (simp add: checkOverspeedAlert_def)
  show "deltaSpeedKmh (checkOverspeedAlert v b) = v - p95SpeedKmh b"
    by (simp add: checkOverspeedAlert_def)
  show "checkAndCreateAlerts thr db input = (None, db)" if "applicableFor db input = None"
    using that by (rule checkAndCreateAlerts_None)
  show "fst (checkAndCreateAlerts thr db input)
          = Some (newDelay thr db input ab @ newOverspeed db input ab)"
    if "applicableFor db input = Some ab"
    using that by (rule checkAndCreateAlerts_Some)
  show "newOverspeed db input ab \<noteq> [] \<longleftrightarrow>
             in_avgSpeedKmh input - p95SpeedKmh ab > 0 \<and> p95SpeedKmh ab > 0
             \<and> findUnresolved db overspeed (in_tripId input) (in_corridorId input) = None"
    by (simp add: newOverspeed_def checkOverspeedAlert_def Let_def)
  show "newDelay thr db input ab \<noteq> [] \<longleftrightarrow>
             in_travelSec input - medianTravelSec ab \<ge> thr * 60
             \<and> findUnresolved db delay (in_tripId input) (in_corridorId input) = None"
    by (simp add: newDelay_def checkDelayAlert_def Let_def)
  show "length (newDelay thr db input ab) \<le> 1" by (simp add: newDelay_def)
  show "length (newOverspeed db input ab) \<le> 1" by (simp add: newOverspeed_def)
  show "\<forall>a \<in> set (newDelay thr db input ab). a_type a = delay" by (simp add: newDelay_def)
  show "\<forall>a \<in> set (newOverspeed db input ab). a_type a = overspeed"
    by (simp add: newOverspeed_def)
  show "map_option (map a_type) (fst (checkAndCreateAlerts 15 sampleDb (mkInput 400 40))) = Some []"
    by (simp add: run_sampleDb newDelay_sampleDb newOverspeed_sampleDb)
  show "map_option (map a_type) (fst (checkAndCreateAlerts 15 sampleDb (mkInput 1400 40)))
        = Some [delay]"
    by (simp add: run_sampleDb newDelay_sampleDb newOverspeed_sampleDb)
  show "map_option (map a_type) (fst (checkAndCreateAlerts 15 sampleDb (mkInput 400 60)))
        = Some [overspeed]"
    by (simp add: run_sampleDb newDelay_sampleDb newOverspeed_sampleDb)
  show "map_option (map a_type) (fst (checkAndCreateAlerts 15 sampleDb (mkInput 1400 60)))
        = Some [delay, overspeed]"
    by (simp add: run_sampleDb newDelay_sampleDb newOverspeed_sampleDb)
qed

theorem overspeed_check_independent_witness:
  "applicableFor sampleDb (mkInput 1400 60) = Some sampleBaseline
   \<and> fst (checkAndCreateAlerts 15 sampleDb (mkInput 1400 60))
       = Some [delayAlertData 15 (mkInput 1400 60) sampleBaseline
                 (checkDelayAlert 1400 sampleBaseline 15),
               overspeedAlertData (mkInput 1400 60) sampleBaseline
                 (checkOverspeedAlert 60 sampleBaseline)]
   \<and> applicableFor (sampleDb\<lparr>corridorStats := []\<rparr>) (mkInput 1400 60) = None
   \<and> checkAndCreateAlerts 15 (sampleDb\<lparr>corridorStats := []\<rparr>) (mkInput 1400 60)
       = (None, sampleDb\<lparr>corridorStats := []\<rparr>)"
proof -
  have n: "applicableFor (sampleDb\<lparr>corridorStats := []\<rparr>) (mkInput 1400 60) = None"
    by (simp add: applicableFor_def)
  from overspeed_check_independent
         [of 60 sampleBaseline "sampleDb\<lparr>corridorStats := []\<rparr>" "mkInput 1400 60" 15 sampleBaseline] n
  have a: "checkAndCreateAlerts 15 (sampleDb\<lparr>corridorStats := []\<rparr>) (mkInput 1400 60)
       = (None, sampleDb\<lparr>corridorStats := []\<rparr>)" by blast
  from overspeed_check_independent
         [of 60 sampleBaseline sampleDb "mkInput 1400 60" 15 sampleBaseline]
       applicableFor_sampleDb [of 1400 60]
  have "fst (checkAndCreateAlerts 15 sampleDb (mkInput 1400 60))
          = Some (newDelay 15 sampleDb (mkInput 1400 60) sampleBaseline
                  @ newOverspeed sampleDb (mkInput 1400 60) sampleBaseline)" by blast
  then have b: "fst (checkAndCreateAlerts 15 sampleDb (mkInput 1400 60))
       = Some [delayAlertData 15 (mkInput 1400 60) sampleBaseline
                 (checkDelayAlert 1400 sampleBaseline 15),
               overspeedAlertData (mkInput 1400 60) sampleBaseline
                 (checkOverspeedAlert 60 sampleBaseline)]"
    by (simp add: newDelay_sampleDb newOverspeed_sampleDb)
  from a b n applicableFor_sampleDb [of 1400 60] show ?thesis by simp
qed

text \<open>
  C6 (as amended). The delay check alerts iff
  \<open>delta = travelSec - medianTravelSec \<ge> thresholdMinutes * 60\<close>; the severity is high
  when \<open>|delta| / threshold \<ge> 2\<close>, medium when it is at least 1.5, else low, with the
  threshold in seconds for a delay. A baseline with median 300 seconds and a traversal of
  1400 seconds give, when no unresolved delay alert exists for the trip and corridor,
  exactly one delay alert, with \<open>deltaValue = 1100\<close> and severity low (1100 / 900 is
  below 1.5).
\<close>

theorem delay_check_and_severity:
  "(delayIsAlert (checkDelayAlert travel b m) \<longleftrightarrow> travel - medianTravelSec b \<ge> m * 60)
   \<and> deltaSec (checkDelayAlert travel b m) = travel - medianTravelSec b
   \<and> (thr \<noteq> 0 \<longrightarrow>
        getAlertSeverity ty d thr =
          (if \<bar>d\<bar> / thr \<ge> 2 then high else if \<bar>d\<bar> / thr \<ge> 1.5 then medium else low))
   \<and> severity (delayAlertData m input b c) = getAlertSeverity delay (deltaSec c) (m * 60)
   \<and> (applicableFor db input = Some ab \<and> medianTravelSec ab = 300
        \<and> in_travelSec input = 1400
        \<and> findUnresolved db delay (in_tripId input) (in_corridorId input) = None
      \<longrightarrow> map_option (filter (\<lambda>a. a_type a = delay)) (fst (checkAndCreateAlerts 15 db input))
           = Some [\<lparr> a_type = delay, a_corridorId = in_corridorId input,
                      a_tripId = in_tripId input, a_vehicleId = in_vehicleId input,
                      severity = low, deltaValue = 1100,
                      details = DelayDetails 1400 300 (bucketHour ab),
                      resolvedAt = None \<rparr>])"
proof (intro conjI impI)
  show "delayIsAlert (checkDelayAlert travel b m) \<longleftrightarrow> travel - medianTravelSec b \<ge> m * 60"
    by (simp add: checkDelayAlert_def Let_def)
  show "deltaSec (checkDelayAlert travel b m) = travel - medianTravelSec b"
    by (simp add: checkDelayAlert_def Let_def)
  show "getAlertSeverity ty d thr =
          (if \<bar>d\<bar> / thr \<ge> 2 then high else if \<bar>d\<bar> / thr \<ge> 1.5 then medium else low)"
    if "thr \<noteq> 0"
    using that by (simp add: getAlertSeverity_def Let_def)
  show "severity (delayAlertData m input b c) = getAlertSeverity delay (deltaSec c) (m * 60)"
    by (simp add: delayAlertData_def)
  assume h: "applicableFor db input = Some ab \<and> medianTravelSec ab = 300
        \<and> in_travelSec input = 1400
        \<and> findUnresolved db delay (in_tripId input) (in_corridorId input) = None"
  then have run: "fst (checkAndCreateAlerts 15 db input)
          = Some (newDelay 15 db input ab @ newOverspeed db input ab)"
    by (simp add: checkAndCreateAlerts_Some)
  have o: "filter (\<lambda>a. a_type a = delay) (newOverspeed db input ab) = []"
    by (simp add: newOverspeed_def)
  from h have d: "newDelay 15 db input ab =
      [\<lparr> a_type = delay, a_corridorId = in_corridorId input,
         a_tripId = in_tripId input, a_vehicleId = in_vehicleId input,
         severity = low, deltaValue = 1100,
         details = DelayDetails 1400 300 (bucketHour ab),
         resolvedAt = None \<rparr>]"
    by (simp add: newDelay_def checkDelayAlert_def delayAlertData_def getAlertSeverity_def Let_def)
  show "map_option (filter (\<lambda>a. a_type a = delay)) (fst (checkAndCreateAlerts 15 db input))
           = Some [\<lparr> a_type = delay, a_corridorId = in_corridorId input,
                      a_tripId = in_tripId input, a_vehicleId = in_vehicleId input,
                      severity = low, deltaValue = 1100,
                      details = DelayDetails 1400 300 (bucketHour ab),
                      resolvedAt = None \<rparr>]"
    by (simp add: run o) (simp add: d)
qed

theorem delay_check_and_severity_witness:
  "applicableFor sampleDb (mkInput 1400 40) = Some sampleBaseline
   \<and> medianTravelSec sampleBaseline = 300
   \<and> in_travelSec (mkInput 1400 40) = 1400
   \<and> findUnresolved sampleDb delay ''t1'' ''c1'' = None
   \<and> (15 * 60 :: real) \<noteq> 0
   \<and> getAlertSeverity delay 1100 (15 * 60) = low
   \<and> map_option (filter (\<lambda>a. a_type a = delay))
        (fst (checkAndCreateAlerts 15 sampleDb (mkInput 1400 40)))
       = Some [\<lparr> a_type = delay, a_corridorId = ''c1'', a_tripId = ''t1'', a_vehicleId = ''v1'',
                  severity = low, deltaValue = 1100,
                  details = DelayDetails 1400 300 (- 1), resolvedAt = None \<rparr>]"
proof -
  have a: "applicableFor sampleDb (mkInput 1400 40) = Some sampleBaseline"
    by (rule applicableFor_sampleDb)
  have b: "medianTravelSec sampleBaseline = 300" by (simp add: sampleBaseline_def)
  have c: "in_travelSec (mkInput 1400 40) = 1400" by (simp add: mkInput_def)
  have d: "findUnresolved sampleDb delay (in_tripId (mkInput 1400 40))
             (in_corridorId (mkInput 1400 40)) = None"
    by (rule findUnresolved_sampleDb)
  have e: "(15 * 60 :: real) \<noteq> 0" by simp
  note t = delay_check_and_severity
             [of 1400 sampleBaseline 15 "15 * 60" delay 1100 "mkInput 1400 40"
                 "checkDelayAlert 1400 sampleBaseline 15" sampleDb sampleBaseline]
  from t e have s: "getAlertSeverity delay 1100 (15 * 60) = low" by simp
  from t a b c d have
    "map_option (filter (\<lambda>a. a_type a = delay))
        (fst (checkAndCreateAlerts 15 sampleDb (mkInput 1400 40)))
       = Some [\<lparr> a_type = delay, a_corridorId = in_corridorId (mkInput 1400 40),
                  a_tripId = in_tripId (mkInput 1400 40),
                  a_vehicleId = in_vehicleId (mkInput 1400 40),
                  severity = low, deltaValue = 1100,
                  details = DelayDetails 1400 300 (bucketHour sampleBaseline),
                  resolvedAt = None \<rparr>]"
    by blast
  then show ?thesis
    using a b c s by (simp add: mkInput_def sampleBaseline_def findUnresolved_sampleDb)
qed

text \<open>
  The claim C6 as stated fails on its example: the alert created for 1400 seconds against
  a median of 300 has severity low, not high.
\<close>

theorem delay_severity_counterexample:
  "map_option (map (\<lambda>a. (a_type a, deltaValue a, severity a)))
     (fst (checkAndCreateAlerts 15 sampleDb (mkInput 1400 40)))
     = Some [(delay, 1100, low)]
   \<and> medianTravelSec sampleBaseline = 300
   \<and> (1100 :: real) / (15 * 60) < 2"
  by (simp add: run_sampleDb newDelay_sampleDb newOverspeed_sampleDb)
    (simp add: delayAlertData_def checkDelayAlert_def getAlertSeverity_def
      sampleBaseline_def Let_def)

lemma alerts_after:
  "alerts (snd (checkAndCreateAlerts thr db input)) = alerts db @ createdBy thr db input"
  by (cases "applicableFor db input")
     (simp_all add: createdBy_def checkAndCreateAlerts_None checkAndCreateAlerts_Some)

lemma unresolvedFor_append:
  "unresolvedFor ty trip cid (xs @ ys) = unresolvedFor ty trip cid xs @ unresolvedFor ty trip cid ys"
  by (simp add: unresolvedFor_def)

lemma unresolvedFor_newDelay:
  "unresolvedFor ty trip cid (newDelay thr db input b) =
     (if ty = delay \<and> trip = in_tripId input \<and> cid = in_corridorId input
      then newDelay thr db input b else [])"
  by (auto simp: unresolvedFor_def newDelay_def delayAlertData_def)

lemma unresolvedFor_newOverspeed:
  "unresolvedFor ty trip cid (newOverspeed db input b) =
     (if ty = overspeed \<and> trip = in_tripId input \<and> cid = in_corridorId input
      then newOverspeed db input b else [])"
  by (auto simp: unresolvedFor_def newOverspeed_def overspeedAlertData_def)

lemma newDelay_requires_none:
  "newDelay thr db input b \<noteq> [] \<Longrightarrow>
     unresolvedFor delay (in_tripId input) (in_corridorId input) (alerts db) = []"
  by (simp add: newDelay_def findUnresolved_None_iff split: if_splits)

lemma newOverspeed_requires_none:
  "newOverspeed db input b \<noteq> [] \<Longrightarrow>
     unresolvedFor overspeed (in_tripId input) (in_corridorId input) (alerts db) = []"
  by (simp add: newOverspeed_def findUnresolved_None_iff split: if_splits)

lemma length_newDelay: "length (newDelay thr db input b) \<le> 1"
  by (simp add: newDelay_def)

lemma length_newOverspeed: "length (newOverspeed db input b) \<le> 1"
  by (simp add: newOverspeed_def)

lemma unresolvedFor_after_le:
  assumes "length (unresolvedFor ty trip cid (alerts db)) \<le> 1"
  shows "length (unresolvedFor ty trip cid (alerts db @ createdBy thr db input)) \<le> 1"
proof (cases "applicableFor db input")
  case None
  with assms show ?thesis by (simp add: createdBy_def)
next
  case (Some b)
  show ?thesis
  proof (cases ty)
    case delay
    show ?thesis
    proof (cases "trip = in_tripId input \<and> cid = in_corridorId input
                  \<and> newDelay thr db input b \<noteq> []")
      case True
      then have "unresolvedFor ty trip cid (alerts db) = []"
        using newDelay_requires_none [of thr db input b] delay by simp
      then show ?thesis
        using Some delay length_newDelay [of thr db input b]
        by (simp add: createdBy_def unresolvedFor_append unresolvedFor_newDelay
            unresolvedFor_newOverspeed)
    next
      case False
      then show ?thesis
        using Some delay assms
        by (auto simp: createdBy_def unresolvedFor_append unresolvedFor_newDelay
            unresolvedFor_newOverspeed)
    qed
  next
    case overspeed
    show ?thesis
    proof (cases "trip = in_tripId input \<and> cid = in_corridorId input
                  \<and> newOverspeed db input b \<noteq> []")
      case True
      then have "unresolvedFor ty trip cid (alerts db) = []"
        using newOverspeed_requires_none [of db input b] overspeed by simp
      then show ?thesis
        using Some overspeed length_newOverspeed [of db input b]
        by (simp add: createdBy_def unresolvedFor_append unresolvedFor_newDelay
            unresolvedFor_newOverspeed)
    next
      case False
      then show ?thesis
        using Some overspeed assms
        by (auto simp: createdBy_def unresolvedFor_append unresolvedFor_newDelay
            unresolvedFor_newOverspeed)
    qed
  qed
qed

lemma createdBy_suppressed:
  assumes "findUnresolved db ty (in_tripId input) (in_corridorId input) \<noteq> None"
  shows "filter (\<lambda>a. a_type a = ty) (createdBy thr db input) = []"
proof (cases "applicableFor db input")
  case None
  then show ?thesis by (simp add: createdBy_def)
next
  case (Some b)
  with assms show ?thesis
    by (cases ty) (auto simp: createdBy_def newDelay_def newOverspeed_def)
qed

lemma two_sequential:
  assumes a1: "applicableFor db in1 = Some b1"
    and q1: "delayIsAlert (checkDelayAlert (in_travelSec in1) b1 thr)"
    and clean: "unresolvedFor delay (in_tripId in1) (in_corridorId in1) (alerts db) = []"
    and db1: "alerts db1 = alerts (snd (checkAndCreateAlerts thr db in1))"
    and same: "in_tripId in2 = in_tripId in1" "in_corridorId in2 = in_corridorId in1"
  shows "unresolvedFor delay (in_tripId in1) (in_corridorId in1)
           (alerts (snd (checkAndCreateAlerts thr db1 in2)))
         = [delayAlertData thr in1 b1 (checkDelayAlert (in_travelSec in1) b1 thr)]"
    and "filter (\<lambda>a. a_type a = delay) (createdBy thr db1 in2) = []"
proof -
  let ?A = "delayAlertData thr in1 b1 (checkDelayAlert (in_travelSec in1) b1 thr)"
  from clean have "findUnresolved db delay (in_tripId in1) (in_corridorId in1) = None"
    by (simp add: findUnresolved_None_iff)
  with q1 have nd: "newDelay thr db in1 b1 = [?A]" by (simp add: newDelay_def)
  have ud: "unresolvedFor delay (in_tripId in1) (in_corridorId in1) (newDelay thr db in1 b1) = [?A]"
    by (subst unresolvedFor_newDelay) (simp add: nd)
  have uo: "unresolvedFor delay (in_tripId in1) (in_corridorId in1) (newOverspeed db in1 b1) = []"
    by (simp add: unresolvedFor_newOverspeed)
  have u1: "unresolvedFor delay (in_tripId in1) (in_corridorId in1) (alerts db1) = [?A]"
    by (simp add: db1 alerts_after createdBy_def a1 unresolvedFor_append clean ud uo)
  then have f: "findUnresolved db1 delay (in_tripId in2) (in_corridorId in2) \<noteq> None"
    by (simp add: findUnresolved_None_iff same)
  then show s: "filter (\<lambda>a. a_type a = delay) (createdBy thr db1 in2) = []"
    by (rule createdBy_suppressed)
  have "unresolvedFor delay (in_tripId in1) (in_corridorId in1) (createdBy thr db1 in2)
          = filter (\<lambda>a. a_tripId a = in_tripId in1 \<and> a_corridorId a = in_corridorId in1
                         \<and> resolvedAt a = None)
              (filter (\<lambda>a. a_type a = delay) (createdBy thr db1 in2))"
    by (simp add: unresolvedFor_def conj_commute conj_left_commute)
  with s have "unresolvedFor delay (in_tripId in1) (in_corridorId in1) (createdBy thr db1 in2) = []"
    by simp
  with u1 show "unresolvedFor delay (in_tripId in1) (in_corridorId in1)
           (alerts (snd (checkAndCreateAlerts thr db1 in2))) = [?A]"
    by (simp add: alerts_after unresolvedFor_append)
qed

text \<open>
  C8. One call of \<open>checkAndCreateAlerts\<close> keeps the invariant that every
  (trip, corridor, type) triple has at most one unresolved alert; it only appends to the
  alert table, so existing alerts are not modified; when an unresolved alert of a type
  exists for the trip and corridor of the input, no alert of that type is created; and
  two delay-triggering traversals of the same trip and corridor, processed one after the
  other from a state without such an alert, leave exactly one unresolved delay alert, the
  first.
\<close>

theorem alert_deduplication:
  "(atMostOneUnresolved (alerts db) \<longrightarrow>
      atMostOneUnresolved (alerts (snd (checkAndCreateAlerts thr db input))))
   \<and> alerts (snd (checkAndCreateAlerts thr db input)) = alerts db @ createdBy thr db input
   \<and> (findUnresolved db ty (in_tripId input) (in_corridorId input) \<noteq> None \<longrightarrow>
        filter (\<lambda>a. a_type a = ty) (createdBy thr db input) = [])
   \<and> (applicableFor db in1 = Some b1
        \<and> delayIsAlert (checkDelayAlert (in_travelSec in1) b1 thr)
        \<and> unresolvedFor delay (in_tripId in1) (in_corridorId in1) (alerts db) = []
        \<and> alerts db1 = alerts (snd (checkAndCreateAlerts thr db in1))
        \<and> applicableFor db1 in2 = Some b2
        \<and> delayIsAlert (checkDelayAlert (in_travelSec in2) b2 thr)
        \<and> in_tripId in2 = in_tripId in1 \<and> in_corridorId in2 = in_corridorId in1
      \<longrightarrow> unresolvedFor delay (in_tripId in1) (in_corridorId in1)
             (alerts (snd (checkAndCreateAlerts thr db1 in2)))
           = [delayAlertData thr in1 b1 (checkDelayAlert (in_travelSec in1) b1 thr)]
         \<and> filter (\<lambda>a. a_type a = delay) (createdBy thr db1 in2) = [])"
proof (intro conjI impI)
  show "atMostOneUnresolved (alerts (snd (checkAndCreateAlerts thr db input)))"
    if "atMostOneUnresolved (alerts db)"
    using that unresolvedFor_after_le [of _ _ _ db thr input]
    by (simp add: atMostOneUnresolved_def alerts_after)
  show "alerts (snd (checkAndCreateAlerts thr db input)) = alerts db @ createdBy thr db input"
    by (rule alerts_after)
  show "filter (\<lambda>a. a_type a = ty) (createdBy thr db input) = []"
    if "findUnresolved db ty (in_tripId input) (in_corridorId input) \<noteq> None"
    using that by (rule createdBy_suppressed)
  assume h: "applicableFor db in1 = Some b1
        \<and> delayIsAlert (checkDelayAlert (in_travelSec in1) b1 thr)
        \<and> unresolvedFor delay (in_tripId in1) (in_corridorId in1) (alerts db) = []
        \<and> alerts db1 = alerts (snd (checkAndCreateAlerts thr db in1))
        \<and> applicableFor db1 in2 = Some b2
        \<and> delayIsAlert (checkDelayAlert (in_travelSec in2) b2 thr)
        \<and> in_tripId in2 = in_tripId in1 \<and> in_corridorId in2 = in_corridorId in1"
  then show "unresolvedFor delay (in_tripId in1) (in_corridorId in1)
             (alerts (snd (checkAndCreateAlerts thr db1 in2)))
           = [delayAlertData thr in1 b1 (checkDelayAlert (in_travelSec in1) b1 thr)]"
    by (intro two_sequential(1)) simp_all
  from h show "filter (\<lambda>a. a_type a = delay) (createdBy thr db1 in2) = []"
    by (intro two_sequential(2) [of db in1 b1 thr]) simp_all
qed

lemma corridorStats_after:
  "corridorStats (snd (checkAndCreateAlerts thr db input)) = corridorStats db"
  by (cases "applicableFor db input")
     (simp_all add: checkAndCreateAlerts_eq delayBlock_eq overspeedBlock_eq createAndEmit_def)

lemma applicableFor_after:
  "applicableFor (snd (checkAndCreateAlerts thr db input)) input' = applicableFor db input'"
  by (simp add: applicableFor_def corridorStats_after)

theorem alert_deduplication_witness:
  "atMostOneUnresolved (alerts sampleDb)
   \<and> atMostOneUnresolved (alerts (snd (checkAndCreateAlerts 15 sampleDb (mkInput 1400 40))))
   \<and> applicableFor sampleDb (mkInput 1400 40) = Some sampleBaseline
   \<and> delayIsAlert (checkDelayAlert 1400 sampleBaseline 15)
   \<and> delayIsAlert (checkDelayAlert 1500 sampleBaseline 15)
   \<and> findUnresolved (snd (checkAndCreateAlerts 15 sampleDb (mkInput 1400 40))) delay ''t1'' ''c1''
        \<noteq> None
   \<and> filter (\<lambda>a. a_type a = delay)
        (createdBy 15 (snd (checkAndCreateAlerts 15 sampleDb (mkInput 1400 40))) (mkInput 1500 40))
       = []
   \<and> unresolvedFor delay ''t1'' ''c1''
        (alerts (snd (checkAndCreateAlerts 15
                        (snd (checkAndCreateAlerts 15 sampleDb (mkInput 1400 40)))
                        (mkInput 1500 40))))
       = [delayAlertData 15 (mkInput 1400 40) sampleBaseline
            (checkDelayAlert 1400 sampleBaseline 15)]"
proof -
  let ?db1 = "snd (checkAndCreateAlerts 15 sampleDb (mkInput 1400 40))"
  have inv0: "atMostOneUnresolved (alerts sampleDb)"
    by (simp add: atMostOneUnresolved_def unresolvedFor_def sampleDb_def)
  have a1: "applicableFor sampleDb (mkInput 1400 40) = Some sampleBaseline"
    by (rule applicableFor_sampleDb)
  have a2: "applicableFor ?db1 (mkInput 1500 40) = Some sampleBaseline"
    by (simp add: applicableFor_after applicableFor_sampleDb)
  have q1: "delayIsAlert (checkDelayAlert (in_travelSec (mkInput 1400 40)) sampleBaseline 15)"
    by (simp add: checkDelayAlert_def sampleBaseline_def mkInput_def Let_def)
  have q2: "delayIsAlert (checkDelayAlert (in_travelSec (mkInput 1500 40)) sampleBaseline 15)"
    by (simp add: checkDelayAlert_def sampleBaseline_def mkInput_def Let_def)
  have clean: "unresolvedFor delay (in_tripId (mkInput 1400 40)) (in_corridorId (mkInput 1400 40))
                 (alerts sampleDb) = []"
    by (simp add: unresolvedFor_def sampleDb_def)
  have same: "in_tripId (mkInput 1500 40) = in_tripId (mkInput 1400 40)"
             "in_corridorId (mkInput 1500 40) = in_corridorId (mkInput 1400 40)"
    by (simp_all add: mkInput_def)
  have ex: "findUnresolved ?db1 delay (in_tripId (mkInput 1500 40)) (in_corridorId (mkInput 1500 40))
              \<noteq> None"
  proof -
    have "createdBy 15 sampleDb (mkInput 1400 40)
            = [delayAlertData 15 (mkInput 1400 40) sampleBaseline
                 (checkDelayAlert 1400 sampleBaseline 15)]"
      by (simp add: createdBy_def a1 newDelay_sampleDb newOverspeed_sampleDb)
    then have "alerts ?db1
            = [delayAlertData 15 (mkInput 1400 40) sampleBaseline
                 (checkDelayAlert 1400 sampleBaseline 15)]"
      by (simp add: alerts_after sampleDb_def)
    then show ?thesis
      by (simp add: findUnresolved_def delayAlertData_def mkInput_def)
  qed
  note t1 = alert_deduplication
              [where db = sampleDb and thr = 15 and input = "mkInput 1400 40" and ty = delay
                 and ?in1.0 = "mkInput 1400 40" and ?b1.0 = sampleBaseline and ?db1.0 = ?db1
                 and ?in2.0 = "mkInput 1500 40" and ?b2.0 = sampleBaseline]
  note t2 = alert_deduplication
              [where db = ?db1 and thr = 15 and input = "mkInput 1500 40" and ty = delay
                 and ?in1.0 = "mkInput 1400 40" and ?b1.0 = sampleBaseline and ?db1.0 = ?db1
                 and ?in2.0 = "mkInput 1500 40" and ?b2.0 = sampleBaseline]
  from t1 inv0 have inv1: "atMostOneUnresolved (alerts ?db1)" by blast
  from t2 ex have sup: "filter (\<lambda>a. a_type a = delay) (createdBy 15 ?db1 (mkInput 1500 40)) = []"
    by blast
  from t1 a1 q1 clean a2 q2 same
  have one: "unresolvedFor delay (in_tripId (mkInput 1400 40)) (in_corridorId (mkInput 1400 40))
               (alerts (snd (checkAndCreateAlerts 15 ?db1 (mkInput 1500 40))))
             = [delayAlertData 15 (mkInput 1400 40) sampleBaseline
                  (checkDelayAlert (in_travelSec (mkInput 1400 40)) sampleBaseline 15)]"
    by blast
  have ids: "in_tripId (mkInput 1400 40) = ''t1''" "in_corridorId (mkInput 1400 40) = ''c1''"
            "in_tripId (mkInput 1500 40) = ''t1''" "in_corridorId (mkInput 1500 40) = ''c1''"
            "in_travelSec (mkInput 1400 40) = 1400" "in_travelSec (mkInput 1500 40) = 1500"
    by (simp_all add: mkInput_def)
  from inv0 inv1 a1 q1 q2 ex sup one show ?thesis
    by (simp only: ids) simp
qed

section \<open>Properties of ingestion\<close>

lemma GPS_POINT_SCHEMA_None_iff: "GPS_POINT_SCHEMA dt r = None \<longleftrightarrow> invalidPoint dt r"
  by (auto simp: GPS_POINT_SCHEMA_def invalidPoint_def split: option.splits)

lemma BATCH_SCHEMA_None_iff:
  "BATCH_SCHEMA dt rs = None \<longleftrightarrow> (\<exists>r \<in> set rs. invalidPoint dt r)"
  by (induction rs) (auto simp: GPS_POINT_SCHEMA_None_iff [symmetric] split: option.splits)

text \<open>
  C9. If any point of the batch has \<open>lat\<close> outside \<open>[-90, 90]\<close>, \<open>lon\<close> outside
  \<open>[-180, 180]\<close> or a timestamp the parser rejects, the handler answers 400
  \<open>Validation error\<close> and returns the database unchanged: no table is touched. That
  response is given for no other batch.
\<close>

theorem ingest_rejects_invalid_batch:
  "((\<exists>r \<in> set points. r_lat r < - 90 \<or> 90 < r_lat r \<or> r_lon r < - 180 \<or> 180 < r_lon r
                         \<or> datetime env (r_ts r) = None)
      \<longrightarrow> POST env db points = (ErrorResponse 400 ''Validation error'', db))
   \<and> (fst (POST env db points) = ErrorResponse 400 ''Validation error''
        \<longleftrightarrow> (\<exists>r \<in> set points. invalidPoint (datetime env) r))"
proof (intro conjI impI)
  assume "\<exists>r \<in> set points. r_lat r < - 90 \<or> 90 < r_lat r \<or> r_lon r < - 180 \<or> 180 < r_lon r
                         \<or> datetime env (r_ts r) = None"
  then have "BATCH_SCHEMA (datetime env) points = None"
    by (simp add: BATCH_SCHEMA_None_iff invalidPoint_def)
  then show "POST env db points = (ErrorResponse 400 ''Validation error'', db)"
    by (simp add: POST_def)
next
  show "fst (POST env db points) = ErrorResponse 400 ''Validation error''
        \<longleftrightarrow> (\<exists>r \<in> set points. invalidPoint (datetime env) r)"
  proof (cases "BATCH_SCHEMA (datetime env) points")
    case None
    then show ?thesis by (simp add: POST_def BATCH_SCHEMA_None_iff [symmetric])
  next
    case (Some ps)
    then have "\<not> (\<exists>r \<in> set points. invalidPoint (datetime env) r)"
      by (simp add: BATCH_SCHEMA_None_iff [symmetric])
    with Some show ?thesis
      by (simp add: POST_def Let_def split_beta)
  qed
qed

theorem ingest_rejects_invalid_batch_witness:
  "90 < r_lat (mkRaw ''2025-08-01T00:03:00Z'' 95 100.5948)
   \<and> POST sampleEnv sampleDb [mkRaw ''2025-08-01T00:00:00Z'' 5.4343 100.5948,
                               mkRaw ''2025-08-01T00:03:00Z'' 95 100.5948]
       = (ErrorResponse 400 ''Validation error'', sampleDb)
   \<and> datetime sampleEnv (r_ts (mkRaw ''yesterday'' 5.4353 100.5948)) = None
   \<and> POST sampleEnv sampleDb [mkRaw ''2025-08-01T00:00:00Z'' 5.4343 100.5948,
                               mkRaw ''yesterday'' 5.4353 100.5948]
       = (ErrorResponse 400 ''Validation error'', sampleDb)"
proof -
  have a: "90 < r_lat (mkRaw ''2025-08-01T00:03:00Z'' 95 100.5948)"
    by (simp add: mkRaw_def)
  have b: "datetime sampleEnv (r_ts (mkRaw ''yesterday'' 5.4353 100.5948)) = None"
    by (simp add: mkRaw_def sampleEnv_def)
  from a ingest_rejects_invalid_batch
         [of "[mkRaw ''2025-08-01T00:00:00Z'' 5.4343 100.5948,
               mkRaw ''2025-08-01T00:03:00Z'' 95 100.5948]" sampleEnv sampleDb]
  have c: "POST sampleEnv sampleDb [mkRaw ''2025-08-01T00:00:00Z'' 5.4343 100.5948,
                                    mkRaw ''2025-08-01T00:03:00Z'' 95 100.5948]
             = (ErrorResponse 400 ''Validation error'', sampleDb)"
    by simp
  from b ingest_rejects_invalid_batch
         [of "[mkRaw ''2025-08-01T00:00:00Z'' 5.4343 100.5948,
               mkRaw ''yesterday'' 5.4353 100.5948]" sampleEnv sampleDb]
  have d: "POST sampleEnv sampleDb [mkRaw ''2025-08-01T00:00:00Z'' 5.4343 100.5948,
                                    mkRaw ''yesterday'' 5.4353 100.5948]
             = (ErrorResponse 400 ''Validation error'', sampleDb)"
    by simp
  from a b c d show ?thesis by simp
qed

text \<open>
  The same handler on a valid batch of two points, 180 seconds and 111 metres apart:
  vehicle, trip, both points, the drop, a corridor, its traversal and its global baseline
  are stored.
\<close>

lemma ingest_valid_batch_run:
  "POST sampleEnv sampleDb [mkRaw ''2025-08-01T00:00:00Z'' 5.4343 100.5948,
                            mkRaw ''2025-08-01T00:03:00Z'' 5.4353 100.5948]
   = (OkResponse
        [\<lparr> res_tripId = ''id-x'', res_vehicleId = ''id-'', pointsProcessed = 2,
            dropsDetected = 1, corridorsTraversed = 1 \<rparr>],
      sampleDb
        \<lparr> vehicles := [\<lparr> v_id = ''id-'', v_name = ''bus-1'' \<rparr>],
          trips := [\<lparr> trip_id = ''id-x'', trip_vehicleId = ''id-'',
                      startTime = 1754006400000, endTime = 1754006580000,
                      source = ''api_ingest'' \<rparr>],
          gpsPoints := [\<lparr> ts = 1754006400000, lat = 5.4343, lon = 100.5948,
                          speed = None, accuracy = None, heading = None,
                          gp_tripId = ''id-x'' \<rparr>,
                        \<lparr> ts = 1754006580000, lat = 5.4353, lon = 100.5948,
                          speed = None, accuracy = None, heading = None,
                          gp_tripId = ''id-x'' \<rparr>],
          dropRows := [\<lparr> startTs = 1754006400000, endTs = 1754006580000,
                         startLat = 5.4343, startLon = 100.5948,
                         endLat = 5.4353, endLon = 100.5948,
                         durationSec = 180, reason = weak_signal,
                         drop_tripId = ''id-x'' \<rparr>],
          corridors := [\<lparr> aH3 = ''cell-south'', bH3 = ''cell-south'', direction = 0,
                          c_id = ''id-xx'' \<rparr>],
          traversalRows := [\<lparr> travelSec = 180, avgSpeedKmh = 2.2239,
                              td_startTs = 1754006400000, row_corridorId = ''id-xx'',
                              row_tripId = ''id-x'', row_endTs = 1754006580000,
                              row_startLat = 5.4343, row_startLon = 100.5948,
                              row_endLat = 5.4353, row_endLon = 100.5948 \<rparr>],
          corridorStats := [sampleBaseline,
                            \<lparr> corridorId = ''id-xx'', bucketHour = - 1, bcount = 1,
                              medianTravelSec = 180, p95SpeedKmh = 2.2239 \<rparr>],
          idCounter := 3 \<rparr>)"
  by code_simp

end
